theory Spec2Isabelle
  imports Complex_Main
begin

section \<open>Python values, exceptions and strings\<close>

text \<open>
  The handlers of \<^verbatim>\<open>telegram/ext/commandhandler.py\<close> and the store of
  \<^verbatim>\<open>telegram/ext/dictpersistence.py\<close> are embedded as HOL functions.  A Python
  \<^verbatim>\<open>str\<close> is a \<^typ>\<open>string\<close> whose characters are the code points 0..255; a raised
  exception is the left injection of a sum type; an object with mutable attributes is a
  record that every method takes and returns.
\<close>

datatype error = ValueError | TypeError | AttributeError | IndexError | KeyError | Unmodelled

text \<open>
  \<^verbatim>\<open>Unmodelled\<close> is not a Python exception: a function returns it where the source's
  behaviour lies outside the fragment this development covers (floating-point text, code
  points above 255).  No theorem below draws a conclusion from it.
\<close>

datatype pyval =
    PNone
  | PBool bool
  | PInt int
  | PFloat rat
  | PStr string
  | PList "pyval list"
  | PTuple "pyval list"
  | PDict "(pyval \<times> pyval) list"

text \<open>
  A \<^verbatim>\<open>dict\<close> is an association list in insertion order with pairwise different keys.
  Finite floats are rationals; NaN and the infinities are not represented.
\<close>

fun py_num :: "pyval \<Rightarrow> rat option" where
  "py_num (PBool b) = Some (if b then 1 else 0)"
| "py_num (PInt i) = Some (of_int i)"
| "py_num (PFloat r) = Some r"
| "py_num PNone = None"
| "py_num (PStr s) = None"
| "py_num (PList xs) = None"
| "py_num (PTuple xs) = None"
| "py_num (PDict d) = None"

text \<open>
  Python's \<^verbatim>\<open>==\<close> on these values: numbers compare by value across \<^verbatim>\<open>bool\<close>,
  \<^verbatim>\<open>int\<close> and \<^verbatim>\<open>float\<close>; a list never equals a tuple; two dicts are equal when they
  have the same number of items and every item of the first has an equal item in the second.
\<close>

function py_eq :: "pyval \<Rightarrow> pyval \<Rightarrow> bool"
  and py_eq_list :: "pyval list \<Rightarrow> pyval list \<Rightarrow> bool"
  and py_dict_has :: "pyval \<Rightarrow> pyval \<Rightarrow> (pyval \<times> pyval) list \<Rightarrow> bool"
  and py_dict_sub :: "(pyval \<times> pyval) list \<Rightarrow> (pyval \<times> pyval) list \<Rightarrow> bool"
where
  "py_eq PNone b = (case b of PNone \<Rightarrow> True | _ \<Rightarrow> False)"
| "py_eq (PBool x) b = (case py_num b of Some r \<Rightarrow> (if x then 1 else 0) = r | None \<Rightarrow> False)"
| "py_eq (PInt x) b = (case py_num b of Some r \<Rightarrow> of_int x = r | None \<Rightarrow> False)"
| "py_eq (PFloat x) b = (case py_num b of Some r \<Rightarrow> x = r | None \<Rightarrow> False)"
| "py_eq (PStr x) b = (case b of PStr y \<Rightarrow> x = y | _ \<Rightarrow> False)"
| "py_eq (PList xs) b = (case b of PList ys \<Rightarrow> py_eq_list xs ys | _ \<Rightarrow> False)"
| "py_eq (PTuple xs) b = (case b of PTuple ys \<Rightarrow> py_eq_list xs ys | _ \<Rightarrow> False)"
| "py_eq (PDict xs) b =
     (case b of PDict ys \<Rightarrow> length xs = length ys \<and> py_dict_sub xs ys | _ \<Rightarrow> False)"
| "py_eq_list [] ys = (ys = [])"
| "py_eq_list (x # xs) ys =
     (case ys of [] \<Rightarrow> False | y # ys' \<Rightarrow> py_eq x y \<and> py_eq_list xs ys')"
| "py_dict_has k v [] = False"
| "py_dict_has k v ((k', v') # ys) = ((py_eq k k' \<and> py_eq v v') \<or> py_dict_has k v ys)"
| "py_dict_sub [] ys = True"
| "py_dict_sub ((k, v) # xs) ys = (py_dict_has k v ys \<and> py_dict_sub xs ys)"
  by pat_completeness auto
termination
  by (relation "measure (\<lambda>x. case x of
        Inl (Inl (a, b)) \<Rightarrow> size a + size b
      | Inl (Inr (xs, ys)) \<Rightarrow> size_list size xs + size_list size ys
      | Inr (Inl (k, v, ys)) \<Rightarrow> size k + size v + size_list (size_prod size size) ys
      | Inr (Inr (xs, ys)) \<Rightarrow>
          size_list (size_prod size size) xs + size_list (size_prod size size) ys)")
    auto

subsection \<open>String methods\<close>

text \<open>
  \<^verbatim>\<open>str.lower\<close> on the code points 0..255: A-Z and the Latin-1 capitals
  (192..222 without the multiplication sign 215) move up by 32.  All of them have bit 5
  clear, so adding 32 sets that bit.
\<close>

definition is_upper :: "char \<Rightarrow> bool" where
  "is_upper c =
     (let n = (of_char c :: nat)
      in (65 \<le> n \<and> n \<le> 90) \<or> (192 \<le> n \<and> n \<le> 222 \<and> n \<noteq> 215))"

definition lower_char :: "char \<Rightarrow> char" where
  "lower_char c =
     (if is_upper c
      then (case c of Char b0 b1 b2 b3 b4 b5 b6 b7 \<Rightarrow> Char b0 b1 b2 b3 b4 True b6 b7)
      else c)"

definition lower :: "string \<Rightarrow> string" where
  "lower s = map lower_char s"

text \<open>
  The characters \<^verbatim>\<open>str.split()\<close> treats as whitespace: 9..13, 28..32, 133 and 160.
\<close>

definition is_space :: "char \<Rightarrow> bool" where
  "is_space c =
     (let n = (of_char c :: nat)
      in (9 \<le> n \<and> n \<le> 13) \<or> (28 \<le> n \<and> n \<le> 32) \<or> n = 133 \<or> n = 160)"

text \<open>\<^verbatim>\<open>s.split()\<close>: the maximal runs of non-whitespace characters, in order.\<close>

fun split_acc :: "string \<Rightarrow> string \<Rightarrow> string list" where
  "split_acc cur [] = (if cur = [] then [] else [cur])"
| "split_acc cur (c # cs) =
     (if is_space c
      then (if cur = [] then split_acc [] cs else cur # split_acc [] cs)
      else split_acc (cur @ [c]) cs)"

definition split :: "string \<Rightarrow> string list" where
  "split s = split_acc [] s"

text \<open>\<^verbatim>\<open>s.split(sep)\<close> for a one-character separator: empty pieces are kept.\<close>

fun split_sep_acc :: "char \<Rightarrow> string \<Rightarrow> string \<Rightarrow> string list" where
  "split_sep_acc sep cur [] = [cur]"
| "split_sep_acc sep cur (c # cs) =
     (if c = sep then cur # split_sep_acc sep [] cs else split_sep_acc sep (cur @ [c]) cs)"

definition split_sep :: "string \<Rightarrow> char \<Rightarrow> string list" where
  "split_sep s sep = split_sep_acc sep [] s"

text \<open>
  \<^verbatim>\<open>s[start:stop]\<close>: a negative bound counts from the end, both bounds are clamped to
  the string, and an empty range gives the empty string.
\<close>

definition slice :: "'a list \<Rightarrow> int \<Rightarrow> int \<Rightarrow> 'a list" where
  "slice s start stop =
     (let n = int (length s);
          a = (if start < 0 then max 0 (start + n) else min start n);
          b = (if stop < 0 then max 0 (stop + n) else min stop n)
      in take (nat (b - a)) (drop (nat a) s))"

text \<open>\<^verbatim>\<open>xs[i]\<close> for a non-negative constant index: \<^verbatim>\<open>IndexError\<close> out of range.\<close>

definition item :: "'a list \<Rightarrow> nat \<Rightarrow> error + 'a" where
  "item xs i = (if i < length xs then Inr (xs ! i) else Inl IndexError)"

text \<open>
  \<^verbatim>\<open>re.match(r'^[\da-z_]{1,32}$', s)\<close> on the code points 0..255.  In Python's
  \<^verbatim>\<open>re\<close>, \<^verbatim>\<open>$\<close> matches at the end of the string and also just before a newline
  that ends the string.
\<close>

definition command_char :: "char \<Rightarrow> bool" where
  "command_char c = (c \<in> set ''0123456789abcdefghijklmnopqrstuvwxyz_'')"

definition re_match_command :: "string \<Rightarrow> bool" where
  "re_match_command s =
     (let w = (if s = [] then s else if last s = CHR 0x0A then butlast s else s)
      in 1 \<le> length w \<and> length w \<le> 32 \<and> list_all command_char w)"

section \<open>Updates, messages and filters\<close>

record entity =
  entity_type :: string
  entity_offset :: int
  entity_length :: int

definition BOT_COMMAND :: string where
  "BOT_COMMAND = ''bot_command''"

record bot =
  username :: string

record message =
  message_text :: "string option"
  message_entities :: "entity list"
  message_bot :: "bot option"

text \<open>
  Modelled from the spec: \<^verbatim>\<open>telegram.Update\<close> is not among the sources.  An update
  carries at most one of an ordinary message, an edited message, a channel post and an
  edited channel post; \<^verbatim>\<open>effective_message\<close> is the one it carries.
\<close>

record update =
  message :: "message option"
  edited_message :: "message option"
  channel_post :: "message option"
  edited_channel_post :: "message option"

definition effective_message :: "update \<Rightarrow> message option" where
  "effective_message u =
     (case message u of Some m \<Rightarrow> Some m | None \<Rightarrow>
      (case edited_message u of Some m \<Rightarrow> Some m | None \<Rightarrow>
       (case channel_post u of Some m \<Rightarrow> Some m | None \<Rightarrow> edited_channel_post u)))"

text \<open>What \<^verbatim>\<open>check_update\<close> receives: an \<^verbatim>\<open>Update\<close> or any other object.\<close>

datatype py_object = UpdateObj update | OtherObj

text \<open>A filter returns \<^verbatim>\<open>False\<close>, \<^verbatim>\<open>True\<close> or a dict of extra context.\<close>

datatype filter_result = FBool bool | FData "(string \<times> pyval) list"

type_synonym filter = "update \<Rightarrow> filter_result"

fun truthy :: "filter_result \<Rightarrow> bool" where
  "truthy (FBool b) = b"
| "truthy (FData d) = (d \<noteq> [])"

text \<open>
  Modelled from the spec: \<^verbatim>\<open>Filters.update.messages\<close> is not among the sources; it is
  the baseline predicate that accepts ordinary and edited messages and never channel posts.
\<close>

definition Filters_update_messages :: filter where
  "Filters_update_messages u = FBool (\<not> (message u = None \<and> edited_message u = None))"

text \<open>
  Modelled from the spec: the \<^verbatim>\<open>&\<close> of two filters is not among the sources; it
  accepts when both do and then passes on the second filter's extra context.
\<close>

definition and_filter :: "filter \<Rightarrow> filter \<Rightarrow> filter" where
  "and_filter f g u =
     (if truthy (f u) then (if truthy (g u) then (case g u of FData d \<Rightarrow> FData d | FBool b \<Rightarrow> FBool True)
                            else FBool False)
      else FBool False)"

text \<open>
  The result of \<^verbatim>\<open>check_update\<close>: \<^verbatim>\<open>None\<close>, \<^verbatim>\<open>False\<close>, or the pair of the
  arguments and the filter's result.
\<close>

datatype check_result = NoMatch | Rejected | Matched "string list" filter_result

text \<open>A command or prefix argument: one \<^verbatim>\<open>str\<close>, or a list or tuple of them.\<close>

datatype slt = Single string | Many "string list"

section \<open>CommandHandler\<close>

record CommandHandler =
  command :: "string list"
  filters :: filter

text \<open>
  \<^verbatim>\<open>CommandHandler.__init__\<close>: the commands are lower-cased, then each is matched
  against the pattern; the first that fails raises \<^verbatim>\<open>ValueError\<close>.
\<close>

definition CommandHandler_init :: "slt \<Rightarrow> filter option \<Rightarrow> error + CommandHandler" where
  "CommandHandler_init cmd flt =
     (let cs = (case cmd of Single c \<Rightarrow> [lower c] | Many xs \<Rightarrow> map lower xs)
      in if list_all re_match_command cs
         then Inr \<lparr> command = cs,
                    filters = (case flt of Some f \<Rightarrow> and_filter Filters_update_messages f
                                         | None \<Rightarrow> Filters_update_messages) \<rparr>
         else Inl ValueError)"

text \<open>
  \<^verbatim>\<open>CommandHandler.check_update\<close>.  The two reads \<^verbatim>\<open>command_parts[0]\<close> and
  \<^verbatim>\<open>command_parts[1]\<close> are the places where the method could raise.
\<close>

definition CommandHandler_check_update ::
  "CommandHandler \<Rightarrow> py_object \<Rightarrow> error + check_result" where
  "CommandHandler_check_update h obj =
     (case obj of OtherObj \<Rightarrow> Inr NoMatch | UpdateObj u \<Rightarrow>
      (case effective_message u of None \<Rightarrow> Inr NoMatch | Some m \<Rightarrow>
       (case message_entities m of [] \<Rightarrow> Inr NoMatch | e # es \<Rightarrow>
        (case message_text m of None \<Rightarrow> Inr NoMatch | Some t \<Rightarrow>
         (case message_bot m of None \<Rightarrow> Inr NoMatch | Some b \<Rightarrow>
          if entity_type e = BOT_COMMAND \<and> entity_offset e = 0 \<and> t \<noteq> []
          then
            (let cmd = slice t 1 (entity_length e);
                 args = drop 1 (split t);
                 command_parts = split_sep cmd CHR ''@'' @ [username b]
             in case item command_parts 0 of Inl x \<Rightarrow> Inl x | Inr p0 \<Rightarrow>
                (case item command_parts 1 of Inl x \<Rightarrow> Inl x | Inr p1 \<Rightarrow>
                 if \<not> (lower p0 \<in> set (command h) \<and> lower p1 = lower (username b))
                 then Inr NoMatch
                 else (let filter_result = filters h u
                       in if truthy filter_result then Inr (Matched args filter_result)
                          else Inr Rejected)))
          else Inr NoMatch)))))"

section \<open>PrefixHandler\<close>

record PrefixHandler =
  p_prefix :: "string list"
  p_command :: "string list"
  p_commands :: "string list"
  p_filters :: filter

text \<open>\<^verbatim>\<open>_build_commands\<close>: every prefix before every command, both lower-cased.\<close>

definition build_commands :: "PrefixHandler \<Rightarrow> PrefixHandler" where
  "build_commands h =
     h\<lparr> p_commands := concat (map (\<lambda>x. map (\<lambda>y. lower x @ lower y) (p_command h)) (p_prefix h)) \<rparr>"

text \<open>The setters of the properties \<^verbatim>\<open>prefix\<close> and \<^verbatim>\<open>command\<close>.\<close>

definition set_prefix :: "PrefixHandler \<Rightarrow> slt \<Rightarrow> PrefixHandler" where
  "set_prefix h p =
     build_commands (h\<lparr> p_prefix := (case p of Single s \<Rightarrow> [lower s] | Many xs \<Rightarrow> xs) \<rparr>)"

definition set_command :: "PrefixHandler \<Rightarrow> slt \<Rightarrow> PrefixHandler" where
  "set_command h c =
     build_commands (h\<lparr> p_command := (case c of Single s \<Rightarrow> [lower s] | Many xs \<Rightarrow> xs) \<rparr>)"

text \<open>
  \<^verbatim>\<open>PrefixHandler.__init__\<close>.  The three private lists start empty.  The call
  \<^verbatim>\<open>super().__init__('nocommand', ...)\<close> runs the body of
  \<^verbatim>\<open>CommandHandler.__init__\<close> on this object: its assignment to
  \<^verbatim>\<open>self.command\<close> goes through the setter above, and its pattern check reads the
  property back, so it checks the placeholder.  Then the prefix and the command given by
  the caller are assigned through the setters.
\<close>

definition PrefixHandler_init :: "slt \<Rightarrow> slt \<Rightarrow> filter option \<Rightarrow> error + PrefixHandler" where
  "PrefixHandler_init prefix cmd flt =
     (let h0 = \<lparr> p_prefix = [], p_command = [], p_commands = [],
                 p_filters = Filters_update_messages \<rparr>;
          h1 = set_command h0 (Many [lower ''nocommand''])
      in if list_all re_match_command (p_command h1)
         then
           (let h2 = h1\<lparr> p_filters := (case flt of Some f \<Rightarrow> and_filter Filters_update_messages f
                                                  | None \<Rightarrow> Filters_update_messages) \<rparr>;
                h3 = set_prefix h2 prefix;
                h4 = set_command h3 cmd
            in Inr (build_commands h4))
         else Inl ValueError)"

text \<open>
  \<^verbatim>\<open>PrefixHandler.check_update\<close>.  \<^verbatim>\<open>text_list[0]\<close> raises \<^verbatim>\<open>IndexError\<close> when
  the split of the text is empty.
\<close>

definition PrefixHandler_check_update ::
  "PrefixHandler \<Rightarrow> py_object \<Rightarrow> error + check_result" where
  "PrefixHandler_check_update h obj =
     (case obj of OtherObj \<Rightarrow> Inr NoMatch | UpdateObj u \<Rightarrow>
      (case effective_message u of None \<Rightarrow> Inr NoMatch | Some m \<Rightarrow>
       (case message_text m of None \<Rightarrow> Inr NoMatch | Some t \<Rightarrow>
        if t \<noteq> []
        then
          (let text_list = split t
           in case item text_list 0 of Inl x \<Rightarrow> Inl x | Inr t0 \<Rightarrow>
              if lower t0 \<notin> set (p_commands h) then Inr NoMatch
              else (let filter_result = p_filters h u
                    in if truthy filter_result then Inr (Matched (drop 1 text_list) filter_result)
                       else Inr Rejected))
        else Inr NoMatch)))"

section \<open>The json module\<close>

text \<open>
  \<^verbatim>\<open>dictpersistence.py\<close> binds the name \<^verbatim>\<open>json\<close> to \<^verbatim>\<open>ujson\<close> when that is
  installed and to the standard \<^verbatim>\<open>json\<close> otherwise.  Neither is code of the
  repository, so the store takes the module as a parameter: its two functions
  \<^verbatim>\<open>dumps\<close> and \<^verbatim>\<open>loads\<close>.
\<close>

record json_module =
  dumps :: "pyval \<Rightarrow> error + string"
  loads :: "string \<Rightarrow> error + pyval"

subsection \<open>Dict operations on association lists\<close>

text \<open>\<^verbatim>\<open>d.get(k)\<close> is \<^term>\<open>map_of d k\<close>.  \<^verbatim>\<open>d[k] = v\<close> overwrites the value of
  a key that is present, in place, and appends a new key at the end.\<close>

fun dict_set :: "'k \<Rightarrow> 'v \<Rightarrow> ('k \<times> 'v) list \<Rightarrow> ('k \<times> 'v) list" where
  "dict_set k v [] = [(k, v)]"
| "dict_set k v ((k', v') # d) =
     (if k = k' then (k', v) # d else (k', v') # dict_set k v d)"

text \<open>The same for a dict whose keys are Python values, compared with \<^verbatim>\<open>==\<close>.\<close>

fun py_dict_set :: "pyval \<Rightarrow> pyval \<Rightarrow> (pyval \<times> pyval) list \<Rightarrow> (pyval \<times> pyval) list" where
  "py_dict_set k v [] = [(k, v)]"
| "py_dict_set k v ((k', v') # d) =
     (if py_eq k k' then (k', v) # d else (k', v') # py_dict_set k v d)"

fun py_dict_get :: "(pyval \<times> pyval) list \<Rightarrow> pyval \<Rightarrow> pyval option" where
  "py_dict_get [] k = None"
| "py_dict_get ((k', v') # d) k = (if py_eq k k' then Some v' else py_dict_get d k)"

subsection \<open>A model of the standard json module\<close>

text \<open>
  Modelled from the documentation of Python's standard library, which is not part of the
  repository: \<^verbatim>\<open>json.dumps\<close> and \<^verbatim>\<open>json.loads\<close> with their default arguments, on
  values without floats and on text without floating-point literals.  Outside that
  fragment, and for \<^verbatim>\<open>\u\<close> escapes above 255, both answer \<^verbatim>\<open>Unmodelled\<close>.  The
  general theorems below hold for every module; this one makes the examples concrete.
\<close>

fun dec :: "nat \<Rightarrow> string" where
  "dec n = (if n < 10 then [''0123456789'' ! n]
            else dec (n div 10) @ [''0123456789'' ! (n mod 10)])"

definition str_int :: "int \<Rightarrow> string" where
  "str_int i = (if i < 0 then CHR ''-'' # dec (nat (- i)) else dec (nat i))"

fun join :: "string \<Rightarrow> string list \<Rightarrow> string" where
  "join sep [] = []"
| "join sep [x] = x"
| "join sep (x # y # ys) = x @ sep @ join sep (y # ys)"

text \<open>
  A string in JSON text: the quote and the backslash are escaped, the control characters
  and everything above \<^verbatim>\<open>~\<close> are written as escapes (\<^verbatim>\<open>ensure_ascii\<close>).
  \<^term>\<open>CHR 0x22\<close> is the double quote and \<^term>\<open>CHR 0x5C\<close> the backslash.
\<close>

definition json_escape_char :: "char \<Rightarrow> string" where
  "json_escape_char c =
     (let n = (of_char c :: nat)
      in if c = CHR 0x22 then [CHR 0x5C, CHR 0x22]
         else if c = CHR 0x5C then [CHR 0x5C, CHR 0x5C]
         else if c = CHR 0x0A then [CHR 0x5C, CHR ''n'']
         else if c = CHR 0x0D then [CHR 0x5C, CHR ''r'']
         else if c = CHR 0x09 then [CHR 0x5C, CHR ''t'']
         else if c = CHR 0x08 then [CHR 0x5C, CHR ''b'']
         else if c = CHR 0x0C then [CHR 0x5C, CHR ''f'']
         else if n < 32 \<or> 126 < n
           then [CHR 0x5C, CHR ''u'', CHR ''0'', CHR ''0'',
                 ''0123456789abcdef'' ! (n div 16), ''0123456789abcdef'' ! (n mod 16)]
         else [c])"

definition json_quote :: "string \<Rightarrow> string" where
  "json_quote s = [CHR 0x22] @ concat (map json_escape_char s) @ [CHR 0x22]"

text \<open>The key of a dict item: a string as it is, a number, a bool or \<^verbatim>\<open>None\<close> as its
  JSON text, anything else is a \<^verbatim>\<open>TypeError\<close>.\<close>

fun json_key :: "pyval \<Rightarrow> error + string" where
  "json_key (PStr s) = Inr s"
| "json_key (PInt i) = Inr (str_int i)"
| "json_key (PBool b) = Inr (if b then ''true'' else ''false'')"
| "json_key PNone = Inr ''null''"
| "json_key (PFloat r) = Inl Unmodelled"
| "json_key (PList xs) = Inl TypeError"
| "json_key (PTuple xs) = Inl TypeError"
| "json_key (PDict d) = Inl TypeError"

fun json_dumps :: "pyval \<Rightarrow> error + string"
  and json_dumps_list :: "pyval list \<Rightarrow> error + string list"
  and json_dumps_items :: "(pyval \<times> pyval) list \<Rightarrow> error + string list"
where
  "json_dumps PNone = Inr ''null''"
| "json_dumps (PBool b) = Inr (if b then ''true'' else ''false'')"
| "json_dumps (PInt i) = Inr (str_int i)"
| "json_dumps (PFloat r) = Inl Unmodelled"
| "json_dumps (PStr s) = Inr (json_quote s)"
| "json_dumps (PList xs) =
     (case json_dumps_list xs of Inl e \<Rightarrow> Inl e
      | Inr ps \<Rightarrow> Inr (''['' @ join '', '' ps @ '']''))"
| "json_dumps (PTuple xs) =
     (case json_dumps_list xs of Inl e \<Rightarrow> Inl e
      | Inr ps \<Rightarrow> Inr (''['' @ join '', '' ps @ '']''))"
| "json_dumps (PDict d) =
     (case json_dumps_items d of Inl e \<Rightarrow> Inl e
      | Inr ps \<Rightarrow> Inr (''{'' @ join '', '' ps @ ''}''))"
| "json_dumps_list [] = Inr []"
| "json_dumps_list (x # xs) =
     (case json_dumps x of Inl e \<Rightarrow> Inl e | Inr p \<Rightarrow>
      (case json_dumps_list xs of Inl e \<Rightarrow> Inl e | Inr ps \<Rightarrow> Inr (p # ps)))"
| "json_dumps_items [] = Inr []"
| "json_dumps_items ((k, v) # d) =
     (case json_key k of Inl e \<Rightarrow> Inl e | Inr ks \<Rightarrow>
      (case json_dumps v of Inl e \<Rightarrow> Inl e | Inr p \<Rightarrow>
       (case json_dumps_items d of Inl e \<Rightarrow> Inl e
        | Inr ps \<Rightarrow> Inr ((json_quote ks @ '': '' @ p) # ps))))"

text \<open>The parser.  Whitespace between tokens is space, tab, newline and carriage return.\<close>

definition json_ws :: "char \<Rightarrow> bool" where
  "json_ws c = (c \<in> set [CHR '' '', CHR 0x09, CHR 0x0A, CHR 0x0D])"

definition skip_ws :: "string \<Rightarrow> string" where
  "skip_ws s = dropWhile json_ws s"

definition is_digit :: "char \<Rightarrow> bool" where
  "is_digit c = (c \<in> set ''0123456789'')"

definition digit_val :: "char \<Rightarrow> nat" where
  "digit_val c =
     (case map_of (zip ''0123456789abcdefABCDEF''
                       [0, 1, 2, 3, 4, 5, 6, 7, 8, 9, 10, 11, 12, 13, 14, 15, 10, 11, 12, 13, 14, 15]) c
      of Some n \<Rightarrow> n | None \<Rightarrow> 0)"

definition is_hex :: "char \<Rightarrow> bool" where
  "is_hex c = (c \<in> set ''0123456789abcdefABCDEF'')"

definition digits_val :: "string \<Rightarrow> nat" where
  "digits_val ds = foldl (\<lambda>a d. 10 * a + digit_val d) 0 ds"

text \<open>
  The rest of a string after its opening quote, up to the closing quote: the decoded
  characters and what follows.  A control character inside a string is an error.
\<close>

fun parse_string :: "string \<Rightarrow> string \<Rightarrow> error + (string \<times> string)" where
  "parse_string acc [] = Inl ValueError"
| "parse_string acc (c # cs) =
     (if c = CHR 0x22 then Inr (acc, cs)
      else if c = CHR 0x5C then
        (case cs of [] \<Rightarrow> Inl ValueError | e # cs' \<Rightarrow>
           if e = CHR 0x22 then parse_string (acc @ [CHR 0x22]) cs'
           else if e = CHR 0x5C then parse_string (acc @ [CHR 0x5C]) cs'
           else if e = CHR ''/'' then parse_string (acc @ [CHR ''/'']) cs'
           else if e = CHR ''b'' then parse_string (acc @ [CHR 0x08]) cs'
           else if e = CHR ''f'' then parse_string (acc @ [CHR 0x0C]) cs'
           else if e = CHR ''n'' then parse_string (acc @ [CHR 0x0A]) cs'
           else if e = CHR ''r'' then parse_string (acc @ [CHR 0x0D]) cs'
           else if e = CHR ''t'' then parse_string (acc @ [CHR 0x09]) cs'
           else if e = CHR ''u'' then
             (case cs' of
                h1 # h2 # h3 # h4 # cs'' \<Rightarrow>
                  if is_hex h1 \<and> is_hex h2 \<and> is_hex h3 \<and> is_hex h4
                  then (if digit_val h1 = 0 \<and> digit_val h2 = 0
                        then parse_string (acc @ [char_of (16 * digit_val h3 + digit_val h4)]) cs''
                        else Inl Unmodelled)
                  else Inl ValueError
              | _ \<Rightarrow> Inl ValueError)
           else Inl ValueError)
      else if (of_char c :: nat) < 32 then Inl ValueError
      else parse_string (acc @ [c]) cs)"

text \<open>
  A number: an optional minus sign, then \<^verbatim>\<open>0\<close> or a digit string that does not start
  with \<^verbatim>\<open>0\<close>.  A fraction or an exponent after it makes a float.
\<close>

definition parse_number :: "string \<Rightarrow> error + (pyval \<times> string)" where
  "parse_number cs =
     (let neg = (take 1 cs = ''-'');
          ds0 = (if neg then drop 1 cs else cs);
          ds = takeWhile is_digit ds0;
          intpart = (if take 1 ds = ''0'' then ''0'' else ds);
          rest = drop (length intpart) ds0
      in if ds = [] then Inl ValueError
         else if take 1 rest \<in> {''.'', ''e'', ''E''} then Inl Unmodelled
         else Inr (PInt ((if neg then - 1 else 1) * int (digits_val intpart)), rest))"

text \<open>
  The recursive descent takes fuel: the first argument bounds the number of nested calls,
  and \<^verbatim>\<open>json_loads\<close> starts it with more than the length of the text.
\<close>

fun parse_value :: "nat \<Rightarrow> string \<Rightarrow> error + (pyval \<times> string)"
  and parse_elems :: "nat \<Rightarrow> pyval list \<Rightarrow> string \<Rightarrow> error + (pyval \<times> string)"
  and parse_members :: "nat \<Rightarrow> (pyval \<times> pyval) list \<Rightarrow> string \<Rightarrow> error + (pyval \<times> string)"
where
  "parse_value 0 cs = Inl Unmodelled"
| "parse_value (Suc n) cs =
     (case cs of [] \<Rightarrow> Inl ValueError | c # rest \<Rightarrow>
        if c = CHR ''{'' then
          (case skip_ws rest of [] \<Rightarrow> Inl ValueError | d # rest' \<Rightarrow>
             if d = CHR ''}'' then Inr (PDict [], rest') else parse_members n [] (d # rest'))
        else if c = CHR ''['' then
          (case skip_ws rest of [] \<Rightarrow> Inl ValueError | d # rest' \<Rightarrow>
             if d = CHR '']'' then Inr (PList [], rest') else parse_elems n [] (d # rest'))
        else if c = CHR 0x22 then
          (case parse_string [] rest of Inl e \<Rightarrow> Inl e | Inr (s, rest') \<Rightarrow> Inr (PStr s, rest'))
        else if take 4 cs = ''null'' then Inr (PNone, drop 4 cs)
        else if take 4 cs = ''true'' then Inr (PBool True, drop 4 cs)
        else if take 5 cs = ''false'' then Inr (PBool False, drop 5 cs)
        else if take 3 cs = ''NaN'' \<or> take 8 cs = ''Infinity'' \<or> take 9 cs = ''-Infinity''
          then Inl Unmodelled
        else if c = CHR ''-'' \<or> is_digit c then parse_number cs
        else Inl ValueError)"
| "parse_elems 0 acc cs = Inl Unmodelled"
| "parse_elems (Suc n) acc cs =
     (case parse_value n cs of Inl e \<Rightarrow> Inl e | Inr (v, rest) \<Rightarrow>
      (case skip_ws rest of [] \<Rightarrow> Inl ValueError | d # rest' \<Rightarrow>
         if d = CHR '']'' then Inr (PList (acc @ [v]), rest')
         else if d = CHR '','' then parse_elems n (acc @ [v]) (skip_ws rest')
         else Inl ValueError))"
| "parse_members 0 acc cs = Inl Unmodelled"
| "parse_members (Suc n) acc cs =
     (case cs of [] \<Rightarrow> Inl ValueError | q # rest \<Rightarrow>
        if q = CHR 0x22 then
          (case parse_string [] rest of Inl e \<Rightarrow> Inl e | Inr (k, rest1) \<Rightarrow>
           (case skip_ws rest1 of [] \<Rightarrow> Inl ValueError | col # rest2 \<Rightarrow>
              if col = CHR '':'' then
                (case parse_value n (skip_ws rest2) of Inl e \<Rightarrow> Inl e | Inr (v, rest3) \<Rightarrow>
                 (case skip_ws rest3 of [] \<Rightarrow> Inl ValueError | d # rest4 \<Rightarrow>
                    if d = CHR ''}'' then Inr (PDict (py_dict_set (PStr k) v acc), rest4)
                    else if d = CHR '','' then
                      parse_members n (py_dict_set (PStr k) v acc) (skip_ws rest4)
                    else Inl ValueError))
              else Inl ValueError))
        else Inl ValueError)"

definition json_loads :: "string \<Rightarrow> error + pyval" where
  "json_loads s =
     (case parse_value (Suc (length s)) (skip_ws s) of Inl e \<Rightarrow> Inl e
      | Inr (v, rest) \<Rightarrow> if skip_ws rest = [] then Inr v else Inl ValueError)"

definition py_json :: json_module where
  "py_json = \<lparr> dumps = json_dumps, loads = json_loads \<rparr>"

section \<open>DictPersistence\<close>

subsection \<open>Built-in conversions the store uses\<close>

definition strip :: "string \<Rightarrow> string" where
  "strip s = rev (dropWhile is_space (rev (dropWhile is_space s)))"

text \<open>Digits in groups that single underscores separate, as \<^verbatim>\<open>int\<close> accepts them;
  the flag says that the character before was a digit.\<close>

fun digit_groups :: "bool \<Rightarrow> string \<Rightarrow> bool" where
  "digit_groups prev [] = prev"
| "digit_groups prev (c # cs) =
     (if is_digit c then digit_groups True cs
      else if c = CHR ''_'' \<and> prev then digit_groups False cs
      else False)"

text \<open>\<^verbatim>\<open>int(s)\<close> for a string: surrounding whitespace, one optional sign, decimal
  digits; anything else is a \<^verbatim>\<open>ValueError\<close>.\<close>

definition int_of_str :: "string \<Rightarrow> error + int" where
  "int_of_str s =
     (let t = strip s;
          neg = (take 1 t = ''-'');
          ds = (if take 1 t = ''-'' \<or> take 1 t = ''+'' then drop 1 t else t)
      in if digit_groups False ds
         then Inr ((if neg then - 1 else 1) * int (digits_val (filter is_digit ds)))
         else Inl ValueError)"

fun py_int :: "pyval \<Rightarrow> error + int" where
  "py_int (PInt i) = Inr i"
| "py_int (PBool b) = Inr (if b then 1 else 0)"
| "py_int (PFloat r) = Inr (if r < 0 then - floor (- r) else floor r)"
| "py_int (PStr s) = int_of_str s"
| "py_int PNone = Inl TypeError"
| "py_int (PList xs) = Inl TypeError"
| "py_int (PTuple xs) = Inl TypeError"
| "py_int (PDict d) = Inl TypeError"

text \<open>\<^verbatim>\<open>float(x)\<close>: exact for a bool, a float and an integer of at most 53 bits; the
  text of a float and the rounding of larger integers are not modelled.\<close>

fun py_float :: "pyval \<Rightarrow> error + pyval" where
  "py_float (PFloat r) = Inr (PFloat r)"
| "py_float (PInt i) = (if \<bar>i\<bar> \<le> 2 ^ 53 then Inr (PFloat (of_int i)) else Inl Unmodelled)"
| "py_float (PBool b) = Inr (PFloat (if b then 1 else 0))"
| "py_float (PStr s) = Inl Unmodelled"
| "py_float PNone = Inl TypeError"
| "py_float (PList xs) = Inl TypeError"
| "py_float (PTuple xs) = Inl TypeError"
| "py_float (PDict d) = Inl TypeError"

text \<open>Iterating over a value, as \<^verbatim>\<open>tuple(x)\<close> and a \<^verbatim>\<open>for\<close> loop do.\<close>

fun py_iter :: "pyval \<Rightarrow> error + pyval list" where
  "py_iter (PList xs) = Inr xs"
| "py_iter (PTuple xs) = Inr xs"
| "py_iter (PStr s) = Inr (map (\<lambda>c. PStr [c]) s)"
| "py_iter (PDict d) = Inr (map fst d)"
| "py_iter PNone = Inl TypeError"
| "py_iter (PBool b) = Inl TypeError"
| "py_iter (PInt i) = Inl TypeError"
| "py_iter (PFloat r) = Inl TypeError"

text \<open>\<^verbatim>\<open>x[i]\<close> for the constant indices 0 and 1.\<close>

fun py_getitem :: "pyval \<Rightarrow> nat \<Rightarrow> error + pyval" where
  "py_getitem (PList xs) i = item xs i"
| "py_getitem (PTuple xs) i = item xs i"
| "py_getitem (PStr s) i = (case item s i of Inl e \<Rightarrow> Inl e | Inr c \<Rightarrow> Inr (PStr [c]))"
| "py_getitem (PDict d) i =
     (case py_dict_get d (PInt (int i)) of None \<Rightarrow> Inl KeyError | Some v \<Rightarrow> Inr v)"
| "py_getitem PNone i = Inl TypeError"
| "py_getitem (PBool b) i = Inl TypeError"
| "py_getitem (PInt n) i = Inl TypeError"
| "py_getitem (PFloat r) i = Inl TypeError"

text \<open>\<^verbatim>\<open>x.copy()\<close>: values are immutable here, so a copy is the value itself.\<close>

fun py_copy :: "pyval \<Rightarrow> error + pyval" where
  "py_copy (PDict d) = Inr (PDict d)"
| "py_copy (PList xs) = Inr (PList xs)"
| "py_copy PNone = Inl AttributeError"
| "py_copy (PBool b) = Inl AttributeError"
| "py_copy (PInt n) = Inl AttributeError"
| "py_copy (PFloat r) = Inl AttributeError"
| "py_copy (PStr s) = Inl AttributeError"
| "py_copy (PTuple xs) = Inl AttributeError"

fun is_dict :: "pyval \<Rightarrow> bool" where
  "is_dict (PDict d) = True"
| "is_dict PNone = False"
| "is_dict (PBool b) = False"
| "is_dict (PInt n) = False"
| "is_dict (PFloat r) = False"
| "is_dict (PStr s) = False"
| "is_dict (PList xs) = False"
| "is_dict (PTuple xs) = False"

fun is_str :: "pyval \<Rightarrow> bool" where
  "is_str (PStr s) = True"
| "is_str PNone = False"
| "is_str (PBool b) = False"
| "is_str (PInt n) = False"
| "is_str (PFloat r) = False"
| "is_str (PList xs) = False"
| "is_str (PTuple xs) = False"
| "is_str (PDict d) = False"

subsection \<open>The store\<close>

text \<open>
  The ten slots of a \<^verbatim>\<open>DictPersistence\<close>.  \<^verbatim>\<open>_user_data\<close> and \<^verbatim>\<open>_chat_data\<close> map
  integer ids to values, \<^verbatim>\<open>_conversations\<close> maps handler names to dicts from integer
  tuples to states; \<^verbatim>\<open>None\<close> in such a slot is \<^term>\<open>None\<close>.  \<^verbatim>\<open>_bot_data\<close> and
  \<^verbatim>\<open>_callback_data\<close> hold a Python value, \<^term>\<open>PNone\<close> for \<^verbatim>\<open>None\<close>.  A value
  handed to the store is kept as a value: a caller that later changes the same object in
  place is outside this model.
\<close>

type_synonym conversation_dict = "(int list \<times> pyval) list"

record DictPersistence =
  d_user_data :: "(int \<times> pyval) list option"
  d_chat_data :: "(int \<times> pyval) list option"
  d_bot_data :: pyval
  d_callback_data :: pyval
  d_conversations :: "(string \<times> conversation_dict) list option"
  d_user_data_json :: "string option"
  d_chat_data_json :: "string option"
  d_bot_data_json :: "string option"
  d_callback_data_json :: "string option"
  d_conversations_json :: "string option"

text \<open>The Python value of a user or chat slot, as \<^verbatim>\<open>json.dumps\<close> receives it.\<close>

definition py_of_int_dict :: "(int \<times> pyval) list option \<Rightarrow> pyval" where
  "py_of_int_dict d =
     (case d of None \<Rightarrow> PNone | Some xs \<Rightarrow> PDict (map (\<lambda>(k, v). (PInt k, v)) xs))"

subsection \<open>Encoding and decoding\<close>

text \<open>\<^verbatim>\<open>_encode_conversations_to_json\<close>: every tuple key becomes its JSON text.\<close>

fun encode_states ::
  "json_module \<Rightarrow> (string \<times> pyval) list \<Rightarrow> conversation_dict \<Rightarrow> error + (string \<times> pyval) list" where
  "encode_states J acc [] = Inr acc"
| "encode_states J acc ((key, state) # rest) =
     (case dumps J (PTuple (map PInt key)) of Inl e \<Rightarrow> Inl e
      | Inr k \<Rightarrow> encode_states J (dict_set k state acc) rest)"

fun encode_handlers ::
  "json_module \<Rightarrow> (string \<times> (string \<times> pyval) list) list \<Rightarrow> (string \<times> conversation_dict) list
     \<Rightarrow> error + (string \<times> (string \<times> pyval) list) list" where
  "encode_handlers J tmp [] = Inr tmp"
| "encode_handlers J tmp ((handler, states) # rest) =
     (case encode_states J [] states of Inl e \<Rightarrow> Inl e
      | Inr enc \<Rightarrow> encode_handlers J (dict_set handler enc tmp) rest)"

definition encode_conversations_to_json ::
  "json_module \<Rightarrow> (string \<times> conversation_dict) list option \<Rightarrow> error + string" where
  "encode_conversations_to_json J conversations =
     (case conversations of
        None \<Rightarrow> Inl AttributeError
      | Some c \<Rightarrow>
          (case encode_handlers J [] c of Inl e \<Rightarrow> Inl e
           | Inr tmp \<Rightarrow>
               dumps J (PDict (map (\<lambda>(h, d). (PStr h, PDict (map (\<lambda>(k, v). (PStr k, v)) d))) tmp))))"

text \<open>
  \<^verbatim>\<open>_decode_conversations_from_json\<close>.  A key of a decoded JSON object is a string; a
  handler key that is none, and a tuple that holds something else than integers, are
  outside the model.
\<close>

fun ints_of :: "pyval list \<Rightarrow> error + int list" where
  "ints_of [] = Inr []"
| "ints_of (x # xs) =
     (case x of
        PInt i \<Rightarrow> (case ints_of xs of Inl e \<Rightarrow> Inl e | Inr ns \<Rightarrow> Inr (i # ns))
      | _ \<Rightarrow> Inl Unmodelled)"

fun decode_states ::
  "json_module \<Rightarrow> conversation_dict \<Rightarrow> (pyval \<times> pyval) list \<Rightarrow> error + conversation_dict" where
  "decode_states J acc [] = Inr acc"
| "decode_states J acc ((key, state) # rest) =
     (case key of
        PStr k \<Rightarrow>
          (case loads J k of Inl e \<Rightarrow> Inl e | Inr v \<Rightarrow>
           (case py_iter v of Inl e \<Rightarrow> Inl e | Inr xs \<Rightarrow>
            (case ints_of xs of Inl e \<Rightarrow> Inl e
             | Inr t \<Rightarrow> decode_states J (dict_set t state acc) rest)))
      | _ \<Rightarrow> Inl TypeError)"

fun decode_handlers ::
  "json_module \<Rightarrow> (string \<times> conversation_dict) list \<Rightarrow> (pyval \<times> pyval) list
     \<Rightarrow> error + (string \<times> conversation_dict) list" where
  "decode_handlers J acc [] = Inr acc"
| "decode_handlers J acc ((handler, states) # rest) =
     (case handler of
        PStr h \<Rightarrow>
          (case states of
             PDict items \<Rightarrow>
               (case decode_states J [] items of Inl e \<Rightarrow> Inl e
                | Inr c \<Rightarrow> decode_handlers J (dict_set h c acc) rest)
           | _ \<Rightarrow> Inl AttributeError)
      | _ \<Rightarrow> Inl Unmodelled)"

definition decode_conversations_from_json ::
  "json_module \<Rightarrow> string \<Rightarrow> error + (string \<times> conversation_dict) list" where
  "decode_conversations_from_json J json_string =
     (case loads J json_string of Inl e \<Rightarrow> Inl e | Inr tmp \<Rightarrow>
      (case tmp of PDict items \<Rightarrow> decode_handlers J [] items | _ \<Rightarrow> Inl AttributeError))"

text \<open>
  \<^verbatim>\<open>_decode_user_chat_data_from_json\<close>: the outer keys go through \<^verbatim>\<open>int\<close>, the
  inner keys too when \<^verbatim>\<open>int\<close> does not raise \<^verbatim>\<open>ValueError\<close>.
\<close>

fun decode_inner :: "(pyval \<times> pyval) list \<Rightarrow> (pyval \<times> pyval) list \<Rightarrow> error + (pyval \<times> pyval) list" where
  "decode_inner tmp [] = Inr tmp"
| "decode_inner tmp ((key, v) # rest) =
     (case py_int key of
        Inr i \<Rightarrow> decode_inner (py_dict_set (PInt i) v tmp) rest
      | Inl e \<Rightarrow> if e = ValueError then decode_inner (py_dict_set key v tmp) rest else Inl e)"

fun decode_users :: "(int \<times> pyval) list \<Rightarrow> (pyval \<times> pyval) list \<Rightarrow> error + (int \<times> pyval) list" where
  "decode_users tmp [] = Inr tmp"
| "decode_users tmp ((user, user_data) # rest) =
     (case py_int user of Inl e \<Rightarrow> Inl e | Inr u \<Rightarrow>
      (case user_data of
         PDict items \<Rightarrow>
           (case decode_inner [] items of Inl e \<Rightarrow> Inl e
            | Inr inner \<Rightarrow> decode_users (dict_set u (PDict inner) tmp) rest)
       | _ \<Rightarrow> Inl AttributeError))"

definition decode_user_chat_data_from_json :: "json_module \<Rightarrow> string \<Rightarrow> error + (int \<times> pyval) list" where
  "decode_user_chat_data_from_json J data =
     (case loads J data of Inl e \<Rightarrow> Inl e | Inr decoded_data \<Rightarrow>
      (case decoded_data of PDict items \<Rightarrow> decode_users [] items | _ \<Rightarrow> Inl AttributeError))"

subsection \<open>Construction\<close>

text \<open>The two \<^verbatim>\<open>except\<close> clauses of \<^verbatim>\<open>__init__\<close>: the listed exceptions become a
  \<^verbatim>\<open>TypeError\<close>, every other one passes.\<close>

definition except_ValueError_AttributeError :: "error \<Rightarrow> error" where
  "except_ValueError_AttributeError e =
     (if e = ValueError \<or> e = AttributeError then TypeError else e)"

definition except_ValueError_IndexError :: "error \<Rightarrow> error" where
  "except_ValueError_IndexError e =
     (if e = ValueError \<or> e = IndexError then TypeError else e)"

definition init_user_data :: "json_module \<Rightarrow> string \<Rightarrow> DictPersistence \<Rightarrow> error + DictPersistence" where
  "init_user_data J user_data_json s =
     (if user_data_json = [] then Inr s
      else (case decode_user_chat_data_from_json J user_data_json of
              Inl e \<Rightarrow> Inl (except_ValueError_AttributeError e)
            | Inr d \<Rightarrow> Inr (s\<lparr> d_user_data := Some d, d_user_data_json := Some user_data_json \<rparr>)))"

definition init_chat_data :: "json_module \<Rightarrow> string \<Rightarrow> DictPersistence \<Rightarrow> error + DictPersistence" where
  "init_chat_data J chat_data_json s =
     (if chat_data_json = [] then Inr s
      else (case decode_user_chat_data_from_json J chat_data_json of
              Inl e \<Rightarrow> Inl (except_ValueError_AttributeError e)
            | Inr d \<Rightarrow> Inr (s\<lparr> d_chat_data := Some d, d_chat_data_json := Some chat_data_json \<rparr>)))"

definition init_bot_data :: "json_module \<Rightarrow> string \<Rightarrow> DictPersistence \<Rightarrow> error + DictPersistence" where
  "init_bot_data J bot_data_json s =
     (if bot_data_json = [] then Inr s
      else (case loads J bot_data_json of
              Inl e \<Rightarrow> Inl (except_ValueError_AttributeError e)
            | Inr d \<Rightarrow>
                if is_dict d
                then Inr (s\<lparr> d_bot_data := d, d_bot_data_json := Some bot_data_json \<rparr>)
                else Inl TypeError))"

text \<open>The entries of the callback data: each unpacks into three, the second goes
  through \<^verbatim>\<open>float\<close>.\<close>

fun callback_entries :: "pyval list \<Rightarrow> error + (pyval \<times> pyval \<times> pyval) list" where
  "callback_entries [] = Inr []"
| "callback_entries (entry # rest) =
     (case py_iter entry of Inl e \<Rightarrow> Inl e | Inr xs \<Rightarrow>
      (case xs of
         [one, two, three] \<Rightarrow>
           (case py_float two of Inl e \<Rightarrow> Inl e | Inr f \<Rightarrow>
            (case callback_entries rest of Inl e \<Rightarrow> Inl e
             | Inr es \<Rightarrow> Inr ((one, f, three) # es)))
       | _ \<Rightarrow> Inl ValueError))"

definition callback_tuple :: "pyval \<Rightarrow> error + pyval list \<times> pyval" where
  "callback_tuple data =
     (case py_getitem data 0 of Inl e \<Rightarrow> Inl e | Inr d0 \<Rightarrow>
      (case py_iter d0 of Inl e \<Rightarrow> Inl e | Inr entries \<Rightarrow>
       (case callback_entries entries of Inl e \<Rightarrow> Inl e | Inr es \<Rightarrow>
        (case py_getitem data 1 of Inl e \<Rightarrow> Inl e | Inr d1 \<Rightarrow>
           Inr (map (\<lambda>(one, f, three). PTuple [one, f, three]) es, d1)))))"

definition init_callback_data :: "json_module \<Rightarrow> string \<Rightarrow> DictPersistence \<Rightarrow> error + DictPersistence" where
  "init_callback_data J callback_data_json s =
     (if callback_data_json = [] then Inr s
      else (case loads J callback_data_json of
              Inl e \<Rightarrow> Inl (except_ValueError_AttributeError e)
            | Inr data \<Rightarrow>
                if data = PNone
                then Inr (s\<lparr> d_callback_data := PNone, d_callback_data_json := Some callback_data_json \<rparr>)
                else (case callback_tuple data of
                        Inl e \<Rightarrow> Inl (except_ValueError_IndexError e)
                      | Inr (es, d1) \<Rightarrow>
                          if list_all (\<lambda>entry. (case entry of
                                 PTuple [one, f, three] \<Rightarrow> is_dict three \<and> is_str one
                               | _ \<Rightarrow> False)) es \<and> is_dict d1
                          then Inr (s\<lparr> d_callback_data := PTuple [PList es, d1],
                                       d_callback_data_json := Some callback_data_json \<rparr>)
                          else Inl TypeError)))"

definition init_conversations :: "json_module \<Rightarrow> string \<Rightarrow> DictPersistence \<Rightarrow> error + DictPersistence" where
  "init_conversations J conversations_json s =
     (if conversations_json = [] then Inr s
      else (case decode_conversations_from_json J conversations_json of
              Inl e \<Rightarrow> Inl (except_ValueError_AttributeError e)
            | Inr c \<Rightarrow> Inr (s\<lparr> d_conversations := Some c,
                               d_conversations_json := Some conversations_json \<rparr>)))"

text \<open>
  \<^verbatim>\<open>DictPersistence.__init__\<close>: all ten slots start as \<^verbatim>\<open>None\<close>, then the five
  strings are decoded in the order user, chat, bot, callback, conversations; an empty
  string is skipped.  The arguments come in the order of the signature.
\<close>

definition DictPersistence_init ::
  "json_module \<Rightarrow> string \<Rightarrow> string \<Rightarrow> string \<Rightarrow> string \<Rightarrow> string \<Rightarrow> error + DictPersistence" where
  "DictPersistence_init J user_data_json chat_data_json bot_data_json conversations_json
       callback_data_json =
     (case init_user_data J user_data_json
             \<lparr> d_user_data = None, d_chat_data = None, d_bot_data = PNone,
               d_callback_data = PNone, d_conversations = None,
               d_user_data_json = None, d_chat_data_json = None, d_bot_data_json = None,
               d_callback_data_json = None, d_conversations_json = None \<rparr> of
        Inl e \<Rightarrow> Inl e | Inr s1 \<Rightarrow>
      (case init_chat_data J chat_data_json s1 of Inl e \<Rightarrow> Inl e | Inr s2 \<Rightarrow>
       (case init_bot_data J bot_data_json s2 of Inl e \<Rightarrow> Inl e | Inr s3 \<Rightarrow>
        (case init_callback_data J callback_data_json s3 of Inl e \<Rightarrow> Inl e | Inr s4 \<Rightarrow>
           init_conversations J conversations_json s4))))"

subsection \<open>The JSON properties\<close>

text \<open>
  Each property returns the cached string when the cache slot is truthy (a string that is
  not empty) and the serialisation of the live slot otherwise.  A method returns its
  result together with the store it leaves behind.
\<close>

definition user_data_json :: "json_module \<Rightarrow> DictPersistence \<Rightarrow> (error + string) \<times> DictPersistence" where
  "user_data_json J s =
     ((case d_user_data_json s of
         Some c \<Rightarrow> if c = [] then dumps J (py_of_int_dict (d_user_data s)) else Inr c
       | None \<Rightarrow> dumps J (py_of_int_dict (d_user_data s))), s)"

definition chat_data_json :: "json_module \<Rightarrow> DictPersistence \<Rightarrow> (error + string) \<times> DictPersistence" where
  "chat_data_json J s =
     ((case d_chat_data_json s of
         Some c \<Rightarrow> if c = [] then dumps J (py_of_int_dict (d_chat_data s)) else Inr c
       | None \<Rightarrow> dumps J (py_of_int_dict (d_chat_data s))), s)"

definition bot_data_json :: "json_module \<Rightarrow> DictPersistence \<Rightarrow> (error + string) \<times> DictPersistence" where
  "bot_data_json J s =
     ((case d_bot_data_json s of
         Some c \<Rightarrow> if c = [] then dumps J (d_bot_data s) else Inr c
       | None \<Rightarrow> dumps J (d_bot_data s)), s)"

definition callback_data_json :: "json_module \<Rightarrow> DictPersistence \<Rightarrow> (error + string) \<times> DictPersistence" where
  "callback_data_json J s =
     ((case d_callback_data_json s of
         Some c \<Rightarrow> if c = [] then dumps J (d_callback_data s) else Inr c
       | None \<Rightarrow> dumps J (d_callback_data s)), s)"

definition conversations_json :: "json_module \<Rightarrow> DictPersistence \<Rightarrow> (error + string) \<times> DictPersistence" where
  "conversations_json J s =
     ((case d_conversations_json s of
         Some c \<Rightarrow> if c = [] then encode_conversations_to_json J (d_conversations s) else Inr c
       | None \<Rightarrow> encode_conversations_to_json J (d_conversations s)), s)"

subsection \<open>Accessors\<close>

definition get_user_data :: "DictPersistence \<Rightarrow> (int \<times> pyval) list \<times> DictPersistence" where
  "get_user_data s =
     (case d_user_data s of None \<Rightarrow> ([], s\<lparr> d_user_data := Some [] \<rparr>) | Some d \<Rightarrow> (d, s))"

definition get_chat_data :: "DictPersistence \<Rightarrow> (int \<times> pyval) list \<times> DictPersistence" where
  "get_chat_data s =
     (case d_chat_data s of None \<Rightarrow> ([], s\<lparr> d_chat_data := Some [] \<rparr>) | Some d \<Rightarrow> (d, s))"

definition get_bot_data :: "DictPersistence \<Rightarrow> pyval \<times> DictPersistence" where
  "get_bot_data s =
     (if d_bot_data s = PNone then (PDict [], s\<lparr> d_bot_data := PDict [] \<rparr>) else (d_bot_data s, s))"

definition get_callback_data :: "DictPersistence \<Rightarrow> (error + pyval) \<times> DictPersistence" where
  "get_callback_data s =
     (if d_callback_data s = PNone then (Inr PNone, s)
      else ((case py_getitem (d_callback_data s) 0 of Inl e \<Rightarrow> Inl e | Inr a \<Rightarrow>
             (case py_getitem (d_callback_data s) 1 of Inl e \<Rightarrow> Inl e | Inr b \<Rightarrow>
              (case py_copy b of Inl e \<Rightarrow> Inl e | Inr b' \<Rightarrow> Inr (PTuple [a, b'])))), s))"

definition get_conversations :: "DictPersistence \<Rightarrow> string \<Rightarrow> conversation_dict \<times> DictPersistence" where
  "get_conversations s name =
     (case d_conversations s of
        None \<Rightarrow> ([], s\<lparr> d_conversations := Some [] \<rparr>)
      | Some c \<Rightarrow> ((case map_of c name of None \<Rightarrow> [] | Some states \<Rightarrow> states), s))"

subsection \<open>Mutators\<close>

text \<open>
  \<^verbatim>\<open>update_conversation\<close>.  A slot that is \<^verbatim>\<open>None\<close> or empty becomes an empty dict;
  \<^verbatim>\<open>setdefault\<close> adds the handler with an empty dict when it is missing; the state
  stored under the key (\<^verbatim>\<open>None\<close> when there is none) is compared with the new one, and
  only when they differ is the state written and the cache cleared.
\<close>

definition update_conversation :: "DictPersistence \<Rightarrow> string \<Rightarrow> int list \<Rightarrow> pyval \<Rightarrow> DictPersistence" where
  "update_conversation s name key new_state =
     (let c0 = (case d_conversations s of None \<Rightarrow> [] | Some c \<Rightarrow> c);
          c1 = (case map_of c0 name of None \<Rightarrow> c0 @ [(name, [])] | Some states \<Rightarrow> c0);
          states = (case map_of c0 name of None \<Rightarrow> [] | Some states \<Rightarrow> states);
          stored = (case map_of states key of None \<Rightarrow> PNone | Some v \<Rightarrow> v)
      in if py_eq stored new_state
         then s\<lparr> d_conversations := Some c1 \<rparr>
         else s\<lparr> d_conversations := Some (dict_set name (dict_set key new_state states) c1),
                 d_conversations_json := None \<rparr>)"

definition update_user_data :: "DictPersistence \<Rightarrow> int \<Rightarrow> pyval \<Rightarrow> DictPersistence" where
  "update_user_data s user_id data =
     (let d = (case d_user_data s of None \<Rightarrow> [] | Some d \<Rightarrow> d);
          stored = (case map_of d user_id of None \<Rightarrow> PNone | Some v \<Rightarrow> v)
      in if py_eq stored data
         then s\<lparr> d_user_data := Some d \<rparr>
         else s\<lparr> d_user_data := Some (dict_set user_id data d), d_user_data_json := None \<rparr>)"

definition update_chat_data :: "DictPersistence \<Rightarrow> int \<Rightarrow> pyval \<Rightarrow> DictPersistence" where
  "update_chat_data s chat_id data =
     (let d = (case d_chat_data s of None \<Rightarrow> [] | Some d \<Rightarrow> d);
          stored = (case map_of d chat_id of None \<Rightarrow> PNone | Some v \<Rightarrow> v)
      in if py_eq stored data
         then s\<lparr> d_chat_data := Some d \<rparr>
         else s\<lparr> d_chat_data := Some (dict_set chat_id data d), d_chat_data_json := None \<rparr>)"

definition update_bot_data :: "DictPersistence \<Rightarrow> pyval \<Rightarrow> DictPersistence" where
  "update_bot_data s data =
     (if py_eq (d_bot_data s) data then s
      else s\<lparr> d_bot_data := data, d_bot_data_json := None \<rparr>)"

definition update_callback_data :: "DictPersistence \<Rightarrow> pyval \<Rightarrow> error + DictPersistence" where
  "update_callback_data s data =
     (if py_eq (d_callback_data s) data then Inr s
      else (case py_getitem data 0 of Inl e \<Rightarrow> Inl e | Inr a \<Rightarrow>
            (case py_getitem data 1 of Inl e \<Rightarrow> Inl e | Inr b \<Rightarrow>
             (case py_copy b of Inl e \<Rightarrow> Inl e
              | Inr b' \<Rightarrow> Inr (s\<lparr> d_callback_data := PTuple [a, b'],
                                  d_callback_data_json := None \<rparr>)))))"

text \<open>The refresh methods and \<^verbatim>\<open>flush\<close> do nothing.\<close>

definition flush :: "DictPersistence \<Rightarrow> DictPersistence" where
  "flush s = s"

section \<open>Vocabulary of the statements about the store\<close>

text \<open>The value a mutator finds stored for its key, when there is one.\<close>

definition stored_user_data :: "DictPersistence \<Rightarrow> int \<Rightarrow> pyval option" where
  "stored_user_data s user_id =
     (case d_user_data s of None \<Rightarrow> None | Some d \<Rightarrow> map_of d user_id)"

definition stored_chat_data :: "DictPersistence \<Rightarrow> int \<Rightarrow> pyval option" where
  "stored_chat_data s chat_id =
     (case d_chat_data s of None \<Rightarrow> None | Some d \<Rightarrow> map_of d chat_id)"

definition stored_state :: "DictPersistence \<Rightarrow> string \<Rightarrow> int list \<Rightarrow> pyval option" where
  "stored_state s name key =
     (case d_conversations s of None \<Rightarrow> None
      | Some c \<Rightarrow> (case map_of c name of None \<Rightarrow> None | Some states \<Rightarrow> map_of states key))"

text \<open>What \<^verbatim>\<open>d.get(key)\<close> gives for a stored value: \<^verbatim>\<open>None\<close> when there is none.\<close>

definition get_or_None :: "pyval option \<Rightarrow> pyval" where
  "get_or_None x = (case x of None \<Rightarrow> PNone | Some v \<Rightarrow> v)"

text \<open>
  A store as construction from five JSON strings leaves it: every slot filled and every
  cache holding the text it was decoded from.
\<close>

definition example_store :: DictPersistence where
  "example_store =
     \<lparr> d_user_data = Some [(1, PDict [(PStr ''a'', PInt 1)])],
       d_chat_data = Some [(7, PDict [])],
       d_bot_data = PDict [(PStr ''x'', PInt 1)],
       d_callback_data = PTuple [PList [], PDict []],
       d_conversations = Some [(''h'', [([1, 2], PStr ''STATE'')])],
       d_user_data_json = Some ''{\"1\": {\"a\": 1}}'',
       d_chat_data_json = Some ''{\"7\": {}}'',
       d_bot_data_json = Some ''{\"x\": 1}'',
       d_callback_data_json = Some ''[[], {}]'',
       d_conversations_json = Some ''{\"h\": {\"[1, 2]\": \"STATE\"}}'' \<rparr>"

section \<open>Vocabulary of the statements about the handlers\<close>

text \<open>
  The command pattern in the spec's words, \<^verbatim>\<open>^[a-z0-9_]{1,32}$\<close> read as a set of
  strings: between 1 and 32 characters, each a lower-case letter, a digit or an underscore.
\<close>

definition spec_command_pattern :: "string \<Rightarrow> bool" where
  "spec_command_pattern s = (1 \<le> length s \<and> length s \<le> 32 \<and> list_all command_char s)"

text \<open>The strings of a command or prefix argument.\<close>

fun slt_list :: "slt \<Rightarrow> string list" where
  "slt_list (Single s) = [s]"
| "slt_list (Many xs) = xs"

text \<open>
  A check fires when it returns \<^verbatim>\<open>False\<close> or a pair: the trigger was recognised,
  whatever the filter then said.
\<close>

definition fired :: "error + check_result \<Rightarrow> bool" where
  "fired r = (r = Inr Rejected \<or> (\<exists>args fr. r = Inr (Matched args fr)))"

text \<open>
  An update that carries one ordinary message with the given text and entities, bound to
  a bot with the given username.
\<close>

definition message_update :: "string \<Rightarrow> entity list \<Rightarrow> string \<Rightarrow> py_object" where
  "message_update t es name =
     UpdateObj \<lparr> message = Some \<lparr> message_text = Some t, message_entities = es,
                                      message_bot = Some \<lparr> username = name \<rparr> \<rparr>,
                 edited_message = None, channel_post = None, edited_channel_post = None \<rparr>"

text \<open>
  What a setter of \<^verbatim>\<open>PrefixHandler\<close> stores for an argument: a single string is
  lower-cased and wrapped in a list, a list is kept as it is.
\<close>

fun slt_stored :: "slt \<Rightarrow> string list" where
  "slt_stored (Single s) = [lower s]"
| "slt_stored (Many xs) = xs"

text \<open>All concatenations of a lower-cased prefix and a lower-cased command.\<close>

definition triggers :: "string list \<Rightarrow> string list \<Rightarrow> string set" where
  "triggers ps cs = {lower x @ lower y | x y. x \<in> set ps \<and> y \<in> set cs}"

definition bot_command_entity :: "int \<Rightarrow> entity" where
  "bot_command_entity n = \<lparr> entity_type = BOT_COMMAND, entity_offset = 0, entity_length = n \<rparr>"

section \<open>Properties of the handlers\<close>

lemmas string_simps = lower_def lower_char_def is_upper_def is_space_def split_def
  split_sep_def slice_def item_def command_char_def re_match_command_def

lemmas update_simps = message_update_def bot_command_entity_def effective_message_def
  BOT_COMMAND_def Filters_update_messages_def

lemma is_upper_lower_char: "\<not> is_upper (lower_char c)"
  apply (cases c)
  subgoal for b0 b1 b2 b3 b4 b5 b6 b7
    by (cases b0; cases b1; cases b2; cases b3; cases b4; cases b5; cases b6; cases b7;
        simp add: lower_char_def is_upper_def)
  done

lemma lower_char_idem: "lower_char (lower_char c) = lower_char c"
  using is_upper_lower_char[of c] by (simp add: lower_char_def[of "lower_char c"])

lemma lower_idem: "lower (lower s) = lower s"
  by (simp add: lower_def lower_char_idem)

lemma start_handler: "CommandHandler_init (Single ''start'') None =
    Inr \<lparr> command = [''start''], filters = Filters_update_messages \<rparr>"
  by (simp add: CommandHandler_init_def string_simps)

text \<open>
  Claim C1.  A handler for the command \<^verbatim>\<open>start\<close> with no user filter, on a bot named
  \<^verbatim>\<open>mybot\<close>: the message \<^verbatim>\<open>/start@mybot extra args\<close>, whose first entity is a
  bot command at offset 0 covering \<^verbatim>\<open>/start@mybot\<close>, gives the pair of the arguments
  \<^verbatim>\<open>extra\<close>, \<^verbatim>\<open>args\<close> and a truthy filter result; the message
  \<^verbatim>\<open>/start@otherbot\<close> gives \<^verbatim>\<open>None\<close>, which is not the value \<^verbatim>\<open>False\<close> of a
  match the filter rejected (as it rejects the first message when it comes as a channel
  post).
\<close>

theorem check_update_start_mybot:
  "(case CommandHandler_init (Single ''start'') None of
      Inl e \<Rightarrow> False
    | Inr h \<Rightarrow>
        CommandHandler_check_update h
          (message_update ''/start@mybot extra args'' [bot_command_entity 12] ''mybot'')
          = Inr (Matched [''extra'', ''args''] (FBool True))
        \<and> truthy (FBool True)
        \<and> CommandHandler_check_update h
          (message_update ''/start@otherbot'' [bot_command_entity 15] ''mybot'') = Inr NoMatch
        \<and> CommandHandler_check_update h
          (UpdateObj \<lparr> message = None, edited_message = None,
                       channel_post = Some \<lparr> message_text = Some ''/start@mybot extra args'',
                                              message_entities = [bot_command_entity 12],
                                              message_bot = Some \<lparr> username = ''mybot'' \<rparr> \<rparr>,
                       edited_channel_post = None \<rparr>) = Inr Rejected)
   \<and> NoMatch \<noteq> Rejected"
  by (simp add: start_handler CommandHandler_check_update_def update_simps string_simps)

lemma item_append_0: "item (xs @ [y]) 0 = Inr ((xs @ [y]) ! 0)"
  by (simp add: item_def)

lemma split_sep_acc_nonempty: "split_sep_acc sep cur s \<noteq> []"
  by (induction s arbitrary: cur) auto

lemma item_parts_1:
  "\<exists>p. item (split_sep cmd sep @ [y]) 1 = Inr p"
proof -
  have "split_sep cmd sep \<noteq> []"
    by (simp add: split_sep_def split_sep_acc_nonempty)
  then have "1 < length (split_sep cmd sep @ [y])"
    by (cases "split_sep cmd sep") simp_all
  then show ?thesis by (simp add: item_def)
qed

lemma CommandHandler_check_update_total:
  "\<exists>r. CommandHandler_check_update h obj = Inr r"
proof (cases obj)
  case OtherObj
  then show ?thesis by (simp add: CommandHandler_check_update_def)
next
  case (UpdateObj u)
  show ?thesis
  proof (cases "effective_message u")
    case None
    with UpdateObj show ?thesis by (simp add: CommandHandler_check_update_def)
  next
    case (Some m)
    show ?thesis
    proof (cases "message_entities m")
      case Nil
      with UpdateObj Some show ?thesis by (simp add: CommandHandler_check_update_def)
    next
      case (Cons e es)
      show ?thesis
      proof (cases "message_text m")
        case None
        with UpdateObj Some Cons show ?thesis by (simp add: CommandHandler_check_update_def)
      next
        case t: (Some t)
        show ?thesis
        proof (cases "message_bot m")
          case None
          with UpdateObj Some Cons t show ?thesis by (simp add: CommandHandler_check_update_def)
        next
          case b: (Some b)
          obtain p1 where p1: "item (split_sep (slice t 1 (entity_length e)) CHR ''@'' @ [username b]) 1 = Inr p1"
            using item_parts_1 by blast
          show ?thesis
            using UpdateObj Some Cons t b p1
            by (simp add: CommandHandler_check_update_def Let_def item_append_0)
        qed
      qed
    qed
  qed
qed

text \<open>
  Claim C7.  The claim wants every check to return without raising, also on a text that
  is not empty and holds only whitespace.  On the text of one space the check of a
  \<^verbatim>\<open>PrefixHandler\<close> reads the first element of an empty split and raises
  \<^verbatim>\<open>IndexError\<close>.  (The lemma \<open>CommandHandler_check_update_total\<close> above shows
  that the check of a \<^verbatim>\<open>CommandHandler\<close> never raises.)
\<close>

theorem prefix_check_whitespace_text:
  "(case PrefixHandler_init (Single ''!'') (Single ''test'') None of
      Inl e \<Rightarrow> False
    | Inr h \<Rightarrow> PrefixHandler_check_update h (message_update '' '' [] ''mybot'') = Inl IndexError)"
  by (simp add: PrefixHandler_init_def set_command_def set_prefix_def build_commands_def
      PrefixHandler_check_update_def update_simps string_simps)

lemmas prefix_simps = PrefixHandler_init_def set_command_def set_prefix_def build_commands_def

lemma nocommand_ok: "re_match_command (lower ''nocommand'')"
  by (simp add: string_simps)

lemma re_match_command_iff:
  "re_match_command s =
     (spec_command_pattern s \<or> (\<exists>w. s = w @ [CHR 0x0A] \<and> spec_command_pattern w))"
proof (cases "s = []")
  case True
  then show ?thesis by (simp add: re_match_command_def spec_command_pattern_def)
next
  case False
  then obtain w c where s: "s = w @ [c]" by (metis rev_exhaust)
  show ?thesis
  proof (cases "c = CHR 0x0A")
    case True
    have "\<not> command_char (CHR 0x0A)" by (simp add: command_char_def)
    then have "\<not> spec_command_pattern (w @ [CHR 0x0A])"
      by (simp add: spec_command_pattern_def)
    with True s show ?thesis
      by (auto simp: re_match_command_def spec_command_pattern_def)
  next
    case False
    with s show ?thesis
      by (simp add: re_match_command_def spec_command_pattern_def)
  qed
qed

lemma CommandHandler_init_result:
  "CommandHandler_init cmd flt =
     (if list_all re_match_command (map lower (slt_list cmd))
      then Inr \<lparr> command = map lower (slt_list cmd),
                 filters = (case flt of Some f \<Rightarrow> and_filter Filters_update_messages f
                                      | None \<Rightarrow> Filters_update_messages) \<rparr>
      else Inl ValueError)"
  by (cases cmd) (simp_all add: CommandHandler_init_def)

lemma CommandHandler_init_valid:
  assumes "list_all spec_command_pattern (map lower (slt_list cmd))"
  shows "\<exists>h. CommandHandler_init cmd flt = Inr h \<and> command h = map lower (slt_list cmd)"
proof -
  have "list_all re_match_command (map lower (slt_list cmd))"
    using assms by (simp add: list_all_iff re_match_command_iff)
  then show ?thesis by (simp add: CommandHandler_init_result)
qed

lemma CommandHandler_init_invalid:
  assumes "x \<in> set (slt_list cmd)" and "\<not> re_match_command (lower x)"
  shows "CommandHandler_init cmd flt = Inl ValueError"
  using assms by (auto simp: CommandHandler_init_result list_all_iff)

text \<open>
  Claim C4.  The claim wants construction to fail for every token whose lower-cased form
  is not a string of 1 to 32 characters from \<^verbatim>\<open>[a-z0-9_]\<close>.  The token
  \<^verbatim>\<open>start\<close> followed by a newline is no such string, and construction succeeds and
  keeps it as a command: \<^verbatim>\<open>$\<close> of \<^verbatim>\<open>re.match\<close> also matches before a final newline.
  (The lemmas \<open>re_match_command_iff\<close>, \<open>CommandHandler_init_valid\<close> and
  \<open>CommandHandler_init_invalid\<close> above give the rest of the claim: tokens are lower-cased
  first, every valid token is accepted, and a token is accepted only if it is valid or
  valid up to one final newline.)
\<close>

theorem command_trailing_newline_accepted:
  "\<not> spec_command_pattern (lower (''start'' @ [CHR 0x0A]))
   \<and> CommandHandler_init (Single (''start'' @ [CHR 0x0A])) None
       = Inr \<lparr> command = [''start'' @ [CHR 0x0A]], filters = Filters_update_messages \<rparr>"
  by (simp add: CommandHandler_init_def spec_command_pattern_def string_simps)

text \<open>
  Claim C9, as stated, fails: the claim says the pattern check of the exact matcher applies
  to every token assigned to the command of a \<^verbatim>\<open>PrefixHandler\<close>.  The command
  \<^verbatim>\<open>no such command!\<close> does not match the pattern, and a handler is constructed with
  it.
\<close>

theorem prefix_command_not_validated:
  "\<not> re_match_command (lower ''no such command!'')
   \<and> (case PrefixHandler_init (Single ''!'') (Single ''no such command!'') None of
        Inl e \<Rightarrow> False
      | Inr h \<Rightarrow> p_command h = [''no such command!''] \<and> p_commands h = [''!no such command!''])"
  by (simp add: prefix_simps string_simps)

lemma PrefixHandler_init_result:
  "PrefixHandler_init p c flt =
     Inr \<lparr> p_prefix = slt_stored p, p_command = slt_stored c,
           p_commands = concat (map (\<lambda>x. map (\<lambda>y. lower x @ lower y) (slt_stored c)) (slt_stored p)),
           p_filters = (case flt of Some f \<Rightarrow> and_filter Filters_update_messages f
                                  | None \<Rightarrow> Filters_update_messages) \<rparr>"
  using nocommand_ok by (cases p; cases c) (simp_all add: prefix_simps Let_def)

text \<open>
  Claim C9, amended.  The inherited pattern check runs only on the placeholder
  \<^verbatim>\<open>nocommand\<close> that the constructor hands to the base constructor, and the
  placeholder passes it.  Neither the prefixes nor the commands of the caller are checked:
  construction succeeds for every prefix and every command, and the constructor and both
  setters store what they are given (a single string lower-cased, a list as it is).
\<close>

theorem prefix_handler_validates_placeholder_only:
  "(\<exists>h. PrefixHandler_init p c flt = Inr h \<and> p_prefix h = slt_stored p \<and> p_command h = slt_stored c)
   \<and> p_command (set_command h c) = slt_stored c
   \<and> p_prefix (set_prefix h p) = slt_stored p
   \<and> re_match_command (lower ''nocommand'')"
  using nocommand_ok by (cases p; cases c) (simp_all add: PrefixHandler_init_result set_command_def set_prefix_def build_commands_def)

lemma slt_stored_case: "(case p of Single s \<Rightarrow> [lower s] | Many xs \<Rightarrow> xs) = slt_stored p"
  by (cases p) simp_all

lemma set_cart:
  "(\<Union>x\<in>set ps. (\<lambda>y. lower x @ lower y) ` set cs) = triggers ps cs"
  by (auto simp: triggers_def)

lemma triggers_stored: "triggers (slt_stored p) (slt_stored c) = triggers (slt_list p) (slt_list c)"
  by (cases p; cases c) (simp_all add: triggers_def lower_idem)

lemma triggers_stored_l: "triggers (slt_stored p) cs = triggers (slt_list p) cs"
  by (cases p) (simp_all add: triggers_def lower_idem)

lemma triggers_stored_r: "triggers ps (slt_stored c) = triggers ps (slt_list c)"
  by (cases c) (simp_all add: triggers_def lower_idem)

lemma init_triggers:
  "\<exists>h. PrefixHandler_init p c flt = Inr h \<and> set (p_commands h) = triggers (slt_list p) (slt_list c)"
  by (simp add: PrefixHandler_init_result set_cart triggers_stored)

lemma set_prefix_triggers:
  "set (p_commands (set_prefix h p)) = triggers (slt_list p) (p_command h)"
  by (simp add: set_prefix_def build_commands_def slt_stored_case set_cart triggers_stored_l)

lemma set_command_triggers:
  "set (p_commands (set_command h c)) = triggers (p_prefix h) (slt_list c)"
  by (simp add: set_command_def build_commands_def slt_stored_case set_cart triggers_stored_r)

lemma split_Nil: "split [] = []"
  by (simp add: split_def)

lemma prefix_fired_iff:
  "fired (PrefixHandler_check_update h obj) =
     (case obj of OtherObj \<Rightarrow> False | UpdateObj u \<Rightarrow>
      (case effective_message u of None \<Rightarrow> False | Some m \<Rightarrow>
       (case message_text m of None \<Rightarrow> False | Some t \<Rightarrow>
        (case split t of [] \<Rightarrow> False | tok # rest \<Rightarrow> lower tok \<in> set (p_commands h)))))"
  by (auto simp: fired_def PrefixHandler_check_update_def item_def Let_def split_Nil
      split: py_object.splits option.splits list.splits)

lemma example_handler:
  "PrefixHandler_init (Many [''!'', ''#'']) (Many [''test'', ''help'']) None =
     Inr \<lparr> p_prefix = [''!'', ''#''], p_command = [''test'', ''help''],
           p_commands = [''!test'', ''!help'', ''#test'', ''#help''],
           p_filters = Filters_update_messages \<rparr>"
  by (simp add: PrefixHandler_init_result string_simps)

text \<open>
  Claim C3.  After construction, and after every assignment to the prefix or to the
  command, the trigger list holds exactly the concatenations of a lower-cased prefix and a
  lower-cased command over all pairs of the current prefixes and commands.  A check fires
  exactly when the update carries a message with a text whose first whitespace-delimited
  token, lower-cased, is in the current trigger list.  With the prefixes \<^verbatim>\<open>!\<close>,
  \<^verbatim>\<open>#\<close> and the commands \<^verbatim>\<open>test\<close>, \<^verbatim>\<open>help\<close> the triggers are
  \<^verbatim>\<open>!test\<close>, \<^verbatim>\<open>#test\<close>, \<^verbatim>\<open>!help\<close>, \<^verbatim>\<open>#help\<close> and the text
  \<^verbatim>\<open>!test a b\<close> gives the arguments \<^verbatim>\<open>a\<close>, \<^verbatim>\<open>b\<close>; after the command is
  reassigned to \<^verbatim>\<open>New\<close> the old trigger no longer fires and the new one does, and
  likewise after the prefix is reassigned to \<^verbatim>\<open>$\<close>.
\<close>

theorem prefix_handler_triggers:
  "(\<exists>g. PrefixHandler_init p c flt = Inr g
        \<and> set (p_commands g) = triggers (slt_list p) (slt_list c))
   \<and> set (p_commands (set_prefix h p)) = triggers (slt_list p) (p_command h)
   \<and> set (p_commands (set_command h c)) = triggers (p_prefix h) (slt_list c)
   \<and> fired (PrefixHandler_check_update h obj) =
        (case obj of OtherObj \<Rightarrow> False | UpdateObj u \<Rightarrow>
         (case effective_message u of None \<Rightarrow> False | Some m \<Rightarrow>
          (case message_text m of None \<Rightarrow> False | Some t \<Rightarrow>
           (case split t of [] \<Rightarrow> False | tok # rest \<Rightarrow> lower tok \<in> set (p_commands h)))))
   \<and> (case PrefixHandler_init (Many [''!'', ''#'']) (Many [''test'', ''help'']) None of
         Inl e \<Rightarrow> False
       | Inr g \<Rightarrow>
           set (p_commands g) = {''!test'', ''#test'', ''!help'', ''#help''}
           \<and> PrefixHandler_check_update g (message_update ''!test a b'' [] ''mybot'')
               = Inr (Matched [''a'', ''b''] (FBool True))
           \<and> PrefixHandler_check_update (set_command g (Single ''New''))
                 (message_update ''!test a b'' [] ''mybot'') = Inr NoMatch
           \<and> PrefixHandler_check_update (set_command g (Single ''New''))
                 (message_update ''#NEW a'' [] ''mybot'') = Inr (Matched [''a''] (FBool True))
           \<and> PrefixHandler_check_update (set_prefix g (Many [''$'']))
                 (message_update ''!test a b'' [] ''mybot'') = Inr NoMatch
           \<and> PrefixHandler_check_update (set_prefix g (Many [''$'']))
                 (message_update ''$help me'' [] ''mybot'') = Inr (Matched [''me''] (FBool True)))"
proof -
  have ex: "(case PrefixHandler_init (Many [''!'', ''#'']) (Many [''test'', ''help'']) None of
         Inl e \<Rightarrow> False
       | Inr g \<Rightarrow>
           set (p_commands g) = {''!test'', ''#test'', ''!help'', ''#help''}
           \<and> PrefixHandler_check_update g (message_update ''!test a b'' [] ''mybot'')
               = Inr (Matched [''a'', ''b''] (FBool True))
           \<and> PrefixHandler_check_update (set_command g (Single ''New''))
                 (message_update ''!test a b'' [] ''mybot'') = Inr NoMatch
           \<and> PrefixHandler_check_update (set_command g (Single ''New''))
                 (message_update ''#NEW a'' [] ''mybot'') = Inr (Matched [''a''] (FBool True))
           \<and> PrefixHandler_check_update (set_prefix g (Many [''$'']))
                 (message_update ''!test a b'' [] ''mybot'') = Inr NoMatch
           \<and> PrefixHandler_check_update (set_prefix g (Many [''$'']))
                 (message_update ''$help me'' [] ''mybot'') = Inr (Matched [''me''] (FBool True)))"
    by (simp add: example_handler set_command_def set_prefix_def build_commands_def
        PrefixHandler_check_update_def update_simps string_simps insert_commute)
  show ?thesis
    using init_triggers[of p c flt] set_prefix_triggers[of h p] set_command_triggers[of h c]
      prefix_fired_iff[of h obj] ex
    by blast
qed

section \<open>Properties of the store\<close>

lemmas init_simps = DictPersistence_init_def init_user_data_def init_chat_data_def
  init_bot_data_def init_callback_data_def init_conversations_def

lemma py_eq_list_refl: "(\<And>x. x \<in> set xs \<Longrightarrow> py_eq x x) \<Longrightarrow> py_eq_list xs xs"
  by (induction xs) simp_all

lemma py_dict_has_member:
  "(k, v) \<in> set ys \<Longrightarrow> py_eq k k \<Longrightarrow> py_eq v v \<Longrightarrow> py_dict_has k v ys"
  by (induction ys) auto

lemma py_dict_sub_subset:
  "set xs \<subseteq> set ys \<Longrightarrow> (\<And>k v. (k, v) \<in> set xs \<Longrightarrow> py_eq k k \<and> py_eq v v)
     \<Longrightarrow> py_dict_sub xs ys"
proof (induction xs)
  case Nil
  then show ?case by simp
next
  case (Cons e xs)
  obtain k v where e: "e = (k, v)" by (cases e)
  have "py_dict_has k v ys"
    using Cons.prems e by (intro py_dict_has_member) auto
  moreover have "py_dict_sub xs ys"
    using Cons.prems by (intro Cons.IH) auto
  ultimately show ?case by (simp add: e)
qed

lemma py_eq_refl: "py_eq v v"
proof (induction v)
  case (PList xs)
  then show ?case by (simp add: py_eq_list_refl)
next
  case (PTuple xs)
  then show ?case by (simp add: py_eq_list_refl)
next
  case (PDict d)
  have "py_dict_sub d d"
  proof (rule py_dict_sub_subset)
    show "set d \<subseteq> set d" by simp
  next
    fix k v assume "(k, v) \<in> set d"
    then show "py_eq k k \<and> py_eq v v"
      using PDict.IH[of "(k, v)" k] PDict.IH[of "(k, v)" v] by simp
  qed
  then show ?case by simp
qed simp_all

text \<open>
  Claim C10.  On a store constructed from five empty strings, before any other method has
  run, reading \<^verbatim>\<open>conversations_json\<close> raises: the encoder asks the absent collection
  for its items, an \<^verbatim>\<open>AttributeError\<close>, whatever the JSON module.  The four other
  properties return the serialisation of \<^verbatim>\<open>None\<close>, which with the standard module is
  the string \<^verbatim>\<open>null\<close> and not \<^verbatim>\<open>{}\<close>.
\<close>

theorem fresh_store_json_properties:
  "(case DictPersistence_init J [] [] [] [] [] of
      Inl e \<Rightarrow> False
    | Inr s \<Rightarrow>
        fst (conversations_json J s) = Inl AttributeError
        \<and> fst (user_data_json J s) = dumps J PNone
        \<and> fst (chat_data_json J s) = dumps J PNone
        \<and> fst (bot_data_json J s) = dumps J PNone
        \<and> fst (callback_data_json J s) = dumps J PNone)
   \<and> dumps py_json PNone = Inr ''null''
   \<and> (case DictPersistence_init py_json [] [] [] [] [] of
      Inl e \<Rightarrow> False
    | Inr s \<Rightarrow>
        fst (conversations_json py_json s) = Inl AttributeError
        \<and> fst (user_data_json py_json s) = Inr ''null''
        \<and> fst (chat_data_json py_json s) = Inr ''null''
        \<and> fst (bot_data_json py_json s) = Inr ''null''
        \<and> fst (callback_data_json py_json s) = Inr ''null'')
   \<and> ''null'' \<noteq> ''{}''"
  by (simp add: init_simps conversations_json_def user_data_json_def chat_data_json_def
      bot_data_json_def callback_data_json_def encode_conversations_to_json_def
      py_of_int_dict_def py_json_def)

text \<open>
  Claim C8.  Every JSON property leaves the store as it found it, so a miss stores no new
  cache and a second read does the same work again; a cache that is present (a string
  that is not empty) is returned as it is, whatever the live collection and the JSON
  module are; with the cache absent the result is the serialisation of the live
  collection (for the conversations, their encoding).
\<close>

theorem json_properties_read_only:
  "snd (user_data_json J s) = s
   \<and> snd (chat_data_json J s) = s
   \<and> snd (bot_data_json J s) = s
   \<and> snd (callback_data_json J s) = s
   \<and> snd (conversations_json J s) = s
   \<and> fst (user_data_json J (s\<lparr> d_user_data_json := Some (x # xs) \<rparr>)) = Inr (x # xs)
   \<and> fst (chat_data_json J (s\<lparr> d_chat_data_json := Some (x # xs) \<rparr>)) = Inr (x # xs)
   \<and> fst (bot_data_json J (s\<lparr> d_bot_data_json := Some (x # xs) \<rparr>)) = Inr (x # xs)
   \<and> fst (callback_data_json J (s\<lparr> d_callback_data_json := Some (x # xs) \<rparr>)) = Inr (x # xs)
   \<and> fst (conversations_json J (s\<lparr> d_conversations_json := Some (x # xs) \<rparr>)) = Inr (x # xs)
   \<and> fst (user_data_json J (s\<lparr> d_user_data_json := None \<rparr>))
       = dumps J (py_of_int_dict (d_user_data s))
   \<and> fst (chat_data_json J (s\<lparr> d_chat_data_json := None \<rparr>))
       = dumps J (py_of_int_dict (d_chat_data s))
   \<and> fst (bot_data_json J (s\<lparr> d_bot_data_json := None \<rparr>)) = dumps J (d_bot_data s)
   \<and> fst (callback_data_json J (s\<lparr> d_callback_data_json := None \<rparr>))
       = dumps J (d_callback_data s)
   \<and> fst (conversations_json J (s\<lparr> d_conversations_json := None \<rparr>))
       = encode_conversations_to_json J (d_conversations s)
   \<and> user_data_json J (snd (user_data_json J s)) = user_data_json J s
   \<and> chat_data_json J (snd (chat_data_json J s)) = chat_data_json J s
   \<and> bot_data_json J (snd (bot_data_json J s)) = bot_data_json J s
   \<and> callback_data_json J (snd (callback_data_json J s)) = callback_data_json J s
   \<and> conversations_json J (snd (conversations_json J s)) = conversations_json J s"
  by (simp add: conversations_json_def user_data_json_def chat_data_json_def
      bot_data_json_def callback_data_json_def)

text \<open>
  When a mutator clears its cache.  The four mutators of user, chat, bot and callback
  data clear the cache whenever they change the store (for user and chat data on a store
  whose cache is only present with its collection, as construction leaves it), and
  \<^verbatim>\<open>update_conversation\<close> clears it whenever the state stored under some key
  changes.
\<close>

lemma update_bot_data_clears_cache:
  "update_bot_data s data \<noteq> s \<Longrightarrow> d_bot_data_json (update_bot_data s data) = None"
  by (simp add: update_bot_data_def split: if_splits)

lemma update_callback_data_clears_cache:
  "update_callback_data s data = Inr s' \<Longrightarrow> s' \<noteq> s \<Longrightarrow> d_callback_data_json s' = None"
  by (auto simp: update_callback_data_def split: if_splits sum.splits)

lemma update_user_data_clears_cache:
  assumes "d_user_data s = None \<Longrightarrow> d_user_data_json s = None"
    and "update_user_data s user_id data \<noteq> s"
  shows "d_user_data_json (update_user_data s user_id data) = None"
proof (cases "d_user_data s")
  case None
  then show ?thesis using assms(1) by (simp add: update_user_data_def Let_def)
next
  case (Some d)
  then have "s\<lparr> d_user_data := Some d \<rparr> = s" by (cases s) simp
  then show ?thesis using assms(2) Some
    by (auto simp: update_user_data_def Let_def split: if_splits)
qed

lemma update_chat_data_clears_cache:
  assumes "d_chat_data s = None \<Longrightarrow> d_chat_data_json s = None"
    and "update_chat_data s chat_id data \<noteq> s"
  shows "d_chat_data_json (update_chat_data s chat_id data) = None"
proof (cases "d_chat_data s")
  case None
  then show ?thesis using assms(1) by (simp add: update_chat_data_def Let_def)
next
  case (Some d)
  then have "s\<lparr> d_chat_data := Some d \<rparr> = s" by (cases s) simp
  then show ?thesis using assms(2) Some
    by (auto simp: update_chat_data_def Let_def split: if_splits)
qed

lemma map_of_append_absent:
  "map_of c name = None \<Longrightarrow>
     (case map_of (c @ [(name, [])]) n of None \<Rightarrow> None | Some (states :: conversation_dict) \<Rightarrow> map_of states k)
       = (case map_of c n of None \<Rightarrow> None | Some states \<Rightarrow> map_of states k)"
  by (cases "n = name") (auto simp: map_add_def split: option.splits)

lemma update_conversation_clears_cache:
  assumes "stored_state (update_conversation s name key new_state) n k \<noteq> stored_state s n k"
  shows "d_conversations_json (update_conversation s name key new_state) = None"
proof (rule ccontr)
  assume c: "d_conversations_json (update_conversation s name key new_state) \<noteq> None"
  let ?c0 = "case d_conversations s of None \<Rightarrow> [] | Some c \<Rightarrow> c"
  let ?c1 = "case map_of ?c0 name of None \<Rightarrow> ?c0 @ [(name, [])] | Some states \<Rightarrow> ?c0"
  have eq: "update_conversation s name key new_state = s\<lparr> d_conversations := Some ?c1 \<rparr>"
    using c by (auto simp: update_conversation_def Let_def split: if_splits)
  have "stored_state (s\<lparr> d_conversations := Some ?c1 \<rparr>) n k = stored_state s n k"
    by (cases "d_conversations s"; cases "map_of ?c0 name")
       (simp_all add: stored_state_def map_of_append_absent del: map_of_append)
  with assms eq show False by simp
qed

text \<open>
  Claim C2.  The claim wants every change of a stored collection to clear its cache.  A
  store constructed from the conversations text \<^verbatim>\<open>{}\<close> holds an empty dict and that
  text as cache.  \<^verbatim>\<open>update_conversation("h", (1, 2), None)\<close> adds the handler
  \<^verbatim>\<open>h\<close> with an empty dict and returns before the cache is cleared: the property
  still answers \<^verbatim>\<open>{}\<close>, while the live collection encodes to another text.  (By the
  lemmas above, a call that keeps the cache changes no stored value: it can only add empty
  containers.)
\<close>

theorem update_conversation_stale_cache:
  "(case DictPersistence_init py_json [] [] [] ''{}'' [] of
      Inl e \<Rightarrow> False
    | Inr s \<Rightarrow>
        d_conversations s = Some []
        \<and> d_conversations_json s = Some ''{}''
        \<and> d_conversations (update_conversation s ''h'' [1, 2] PNone) = Some [(''h'', [])]
        \<and> d_conversations_json (update_conversation s ''h'' [1, 2] PNone) = Some ''{}''
        \<and> fst (conversations_json py_json (update_conversation s ''h'' [1, 2] PNone)) = Inr ''{}''
        \<and> encode_conversations_to_json py_json
             (d_conversations (update_conversation s ''h'' [1, 2] PNone)) = Inr ''{\"h\": {}}'')"
  by code_simp

lemma example_store_constructed:
  "DictPersistence_init py_json ''{\"1\": {\"a\": 1}}'' ''{\"7\": {}}'' ''{\"x\": 1}''
     ''{\"h\": {\"[1, 2]\": \"STATE\"}}'' ''[[], {}]'' = Inr example_store"
  by code_simp

lemma update_bot_data_twice:
  "update_bot_data (update_bot_data s data) data = update_bot_data s data"
  by (simp add: update_bot_data_def py_eq_refl)

lemma update_bot_data_repopulated:
  "update_bot_data ((update_bot_data s data)\<lparr> d_bot_data_json := Some c \<rparr>) data
     = (update_bot_data s data)\<lparr> d_bot_data_json := Some c \<rparr>"
  by (simp add: update_bot_data_def py_eq_refl)

lemma update_user_data_noop:
  assumes "stored_user_data s user_id = Some v" and "py_eq v data"
  shows "update_user_data s user_id data = s"
proof -
  from assms(1) obtain d where d: "d_user_data s = Some d" "map_of d user_id = Some v"
    by (auto simp: stored_user_data_def split: option.splits)
  have "s\<lparr> d_user_data := Some d \<rparr> = s" using d(1) by (cases s) simp
  then show ?thesis using d assms(2) by (simp add: update_user_data_def)
qed

lemma update_user_data_change:
  assumes "\<not> py_eq (get_or_None (stored_user_data s user_id)) data"
  shows "update_user_data s user_id data =
           s\<lparr> d_user_data := Some (dict_set user_id data
                                      (case d_user_data s of None \<Rightarrow> [] | Some d \<Rightarrow> d)),
              d_user_data_json := None \<rparr>"
  using assms
  by (auto simp: update_user_data_def stored_user_data_def get_or_None_def Let_def
      split: option.splits)

lemma update_chat_data_noop:
  assumes "stored_chat_data s chat_id = Some v" and "py_eq v data"
  shows "update_chat_data s chat_id data = s"
proof -
  from assms(1) obtain d where d: "d_chat_data s = Some d" "map_of d chat_id = Some v"
    by (auto simp: stored_chat_data_def split: option.splits)
  have "s\<lparr> d_chat_data := Some d \<rparr> = s" using d(1) by (cases s) simp
  then show ?thesis using d assms(2) by (simp add: update_chat_data_def)
qed

lemma update_chat_data_change:
  assumes "\<not> py_eq (get_or_None (stored_chat_data s chat_id)) data"
  shows "update_chat_data s chat_id data =
           s\<lparr> d_chat_data := Some (dict_set chat_id data
                                      (case d_chat_data s of None \<Rightarrow> [] | Some d \<Rightarrow> d)),
              d_chat_data_json := None \<rparr>"
  using assms
  by (auto simp: update_chat_data_def stored_chat_data_def get_or_None_def Let_def
      split: option.splits)

lemma update_conversation_noop:
  assumes "stored_state s name key = Some v" and "py_eq v new_state"
  shows "update_conversation s name key new_state = s"
proof -
  from assms(1) obtain c states where c: "d_conversations s = Some c"
    "map_of c name = Some states" "map_of states key = Some v"
    by (auto simp: stored_state_def split: option.splits)
  have "s\<lparr> d_conversations := Some c \<rparr> = s" using c(1) by (cases s) simp
  then show ?thesis using c assms(2) by (simp add: update_conversation_def)
qed

lemma dict_set_append_absent:
  "map_of c name = None \<Longrightarrow> dict_set name x (c @ [(name, y)]) = dict_set name x c"
  by (induction c) (auto split: if_splits)

lemma update_conversation_change:
  assumes "\<not> py_eq (get_or_None (stored_state s name key)) new_state"
  shows "update_conversation s name key new_state =
           s\<lparr> d_conversations :=
                Some (dict_set name
                        (dict_set key new_state
                           (case map_of (case d_conversations s of None \<Rightarrow> [] | Some c \<Rightarrow> c) name of
                              None \<Rightarrow> [] | Some states \<Rightarrow> states))
                        (case d_conversations s of None \<Rightarrow> [] | Some c \<Rightarrow> c)),
              d_conversations_json := None \<rparr>"
  using assms
  by (auto simp: update_conversation_def stored_state_def get_or_None_def Let_def
      dict_set_append_absent split: option.splits)

text \<open>
  What the mutators keep and what they write.  For every store: when a value is stored
  under the key (for bot and callback data: in the slot) and equals the new one, the call
  returns the store unchanged, cache included; when the comparison made by the code fails,
  the result is the old store with the one collection written and its own cache cleared,
  every other slot as before.  For \<^verbatim>\<open>update_bot_data\<close> a second call with the same data
  changes nothing, also when the cache was filled again in between.
  (\<^verbatim>\<open>update_callback_data\<close> needs data of the documented shape, a pair whose second
  part is a dict, to write.)  The two cases leave one out: nothing is stored under the key
  and the new value is \<^verbatim>\<open>None\<close>, so that the comparison succeeds although no value is
  stored.  That case is treated on its own below.
\<close>

theorem mutators_noop_and_frame:
  "(py_eq (d_bot_data s) data \<longrightarrow> update_bot_data s data = s)
   \<and> (\<not> py_eq (d_bot_data s) data \<longrightarrow>
        update_bot_data s data = s\<lparr> d_bot_data := data, d_bot_data_json := None \<rparr>)
   \<and> update_bot_data (update_bot_data s data) data = update_bot_data s data
   \<and> update_bot_data ((update_bot_data s data)\<lparr> d_bot_data_json := Some c \<rparr>) data
        = (update_bot_data s data)\<lparr> d_bot_data_json := Some c \<rparr>
   \<and> (py_eq (d_callback_data s) cdata \<longrightarrow> update_callback_data s cdata = Inr s)
   \<and> (\<not> py_eq (d_callback_data s) (PTuple [keys, PDict m]) \<longrightarrow>
        update_callback_data s (PTuple [keys, PDict m])
          = Inr (s\<lparr> d_callback_data := PTuple [keys, PDict m], d_callback_data_json := None \<rparr>))
   \<and> (stored_user_data s user_id = Some uv \<and> py_eq uv udata \<longrightarrow>
        update_user_data s user_id udata = s)
   \<and> (\<not> py_eq (get_or_None (stored_user_data s user_id)) udata \<longrightarrow>
        update_user_data s user_id udata
          = s\<lparr> d_user_data := Some (dict_set user_id udata
                                     (case d_user_data s of None \<Rightarrow> [] | Some d \<Rightarrow> d)),
               d_user_data_json := None \<rparr>)
   \<and> (stored_chat_data s chat_id = Some chv \<and> py_eq chv chdata \<longrightarrow>
        update_chat_data s chat_id chdata = s)
   \<and> (\<not> py_eq (get_or_None (stored_chat_data s chat_id)) chdata \<longrightarrow>
        update_chat_data s chat_id chdata
          = s\<lparr> d_chat_data := Some (dict_set chat_id chdata
                                     (case d_chat_data s of None \<Rightarrow> [] | Some d \<Rightarrow> d)),
               d_chat_data_json := None \<rparr>)
   \<and> (stored_state s name key = Some sv \<and> py_eq sv new_state \<longrightarrow>
        update_conversation s name key new_state = s)
   \<and> (\<not> py_eq (get_or_None (stored_state s name key)) new_state \<longrightarrow>
        update_conversation s name key new_state
          = s\<lparr> d_conversations :=
                 Some (dict_set name
                         (dict_set key new_state
                            (case map_of (case d_conversations s of None \<Rightarrow> [] | Some c \<Rightarrow> c) name of
                               None \<Rightarrow> [] | Some states \<Rightarrow> states))
                         (case d_conversations s of None \<Rightarrow> [] | Some c \<Rightarrow> c)),
               d_conversations_json := None \<rparr>)"
proof -
  have bot: "(py_eq (d_bot_data s) data \<longrightarrow> update_bot_data s data = s)
      \<and> (\<not> py_eq (d_bot_data s) data \<longrightarrow>
        update_bot_data s data = s\<lparr> d_bot_data := data, d_bot_data_json := None \<rparr>)"
    by (simp add: update_bot_data_def)
  have cb: "(py_eq (d_callback_data s) cdata \<longrightarrow> update_callback_data s cdata = Inr s)
      \<and> (\<not> py_eq (d_callback_data s) (PTuple [keys, PDict m]) \<longrightarrow>
        update_callback_data s (PTuple [keys, PDict m])
          = Inr (s\<lparr> d_callback_data := PTuple [keys, PDict m], d_callback_data_json := None \<rparr>))"
    by (simp add: update_callback_data_def item_def)
  show ?thesis
    using bot cb update_bot_data_twice[of s data]
      update_bot_data_repopulated[where s=s and data=data and c=c]
      update_user_data_noop[of s user_id uv udata] update_user_data_change[of s user_id udata]
      update_chat_data_noop[of s chat_id chv chdata] update_chat_data_change[of s chat_id chdata]
      update_conversation_noop[of s name key sv new_state]
      update_conversation_change[of s name key new_state]
    by blast
qed

text \<open>
  Every hypothesis of the theorem above holds on the example store, once with equal and
  once with different data for each mutator.
\<close>

theorem mutators_noop_and_frame_witness:
  "py_eq (d_bot_data example_store) (PDict [(PStr ''x'', PInt 1)])
   \<and> update_bot_data example_store (PDict [(PStr ''x'', PInt 1)]) = example_store
   \<and> \<not> py_eq (d_bot_data example_store) (PDict [(PStr ''x'', PInt 2)])
   \<and> update_bot_data example_store (PDict [(PStr ''x'', PInt 2)])
       = example_store\<lparr> d_bot_data := PDict [(PStr ''x'', PInt 2)], d_bot_data_json := None \<rparr>
   \<and> update_bot_data
         ((update_bot_data example_store (PDict [(PStr ''x'', PInt 2)]))
            \<lparr> d_bot_data_json := Some ''{\"x\": 2}'' \<rparr>) (PDict [(PStr ''x'', PInt 2)])
       = (update_bot_data example_store (PDict [(PStr ''x'', PInt 2)]))
            \<lparr> d_bot_data_json := Some ''{\"x\": 2}'' \<rparr>
   \<and> update_callback_data example_store (PTuple [PList [], PDict []]) = Inr example_store
   \<and> update_callback_data example_store (PTuple [PList [], PDict [(PStr ''k'', PInt 1)]])
       = Inr (example_store\<lparr> d_callback_data := PTuple [PList [], PDict [(PStr ''k'', PInt 1)]],
                              d_callback_data_json := None \<rparr>)
   \<and> stored_user_data example_store 1 = Some (PDict [(PStr ''a'', PInt 1)])
   \<and> update_user_data example_store 1 (PDict [(PStr ''a'', PInt 1)]) = example_store
   \<and> update_user_data example_store 1 (PDict [])
       = example_store\<lparr> d_user_data := Some [(1, PDict [])], d_user_data_json := None \<rparr>
   \<and> stored_chat_data example_store 7 = Some (PDict [])
   \<and> update_chat_data example_store 7 (PDict []) = example_store
   \<and> update_chat_data example_store 8 (PDict [])
       = example_store\<lparr> d_chat_data := Some [(7, PDict []), (8, PDict [])],
                         d_chat_data_json := None \<rparr>
   \<and> stored_state example_store ''h'' [1, 2] = Some (PStr ''STATE'')
   \<and> update_conversation example_store ''h'' [1, 2] (PStr ''STATE'') = example_store
   \<and> update_conversation example_store ''h'' [1, 2] (PStr ''DONE'')
       = example_store\<lparr> d_conversations := Some [(''h'', [([1, 2], PStr ''DONE'')])],
                         d_conversations_json := None \<rparr>"
proof -
  have e1: "py_eq (d_bot_data example_store) (PDict [(PStr ''x'', PInt 1)])"
    and e2: "\<not> py_eq (d_bot_data example_store) (PDict [(PStr ''x'', PInt 2)])"
    and e3: "py_eq (d_callback_data example_store) (PTuple [PList [], PDict []])"
    and e4: "\<not> py_eq (d_callback_data example_store)
                 (PTuple [PList [], PDict [(PStr ''k'', PInt 1)]])"
    by (simp_all add: example_store_def)
  have u1: "stored_user_data example_store 1 = Some (PDict [(PStr ''a'', PInt 1)])"
    and u2: "py_eq (PDict [(PStr ''a'', PInt 1)]) (PDict [(PStr ''a'', PInt 1)])"
    and u3: "\<not> py_eq (get_or_None (stored_user_data example_store 1)) (PDict [])"
    and u4: "d_user_data example_store = Some [(1, PDict [(PStr ''a'', PInt 1)])]"
    by (simp_all add: example_store_def stored_user_data_def get_or_None_def)
  have c1: "stored_chat_data example_store 7 = Some (PDict [])"
    and c2: "py_eq (PDict []) (PDict [])"
    and c3: "\<not> py_eq (get_or_None (stored_chat_data example_store 8)) (PDict [])"
    and c4: "d_chat_data example_store = Some [(7, PDict [])]"
    by (simp_all add: example_store_def stored_chat_data_def get_or_None_def)
  have s1: "stored_state example_store ''h'' [1, 2] = Some (PStr ''STATE'')"
    and s2: "py_eq (PStr ''STATE'') (PStr ''STATE'')"
    and s3: "\<not> py_eq (get_or_None (stored_state example_store ''h'' [1, 2])) (PStr ''DONE'')"
    and s4: "d_conversations example_store = Some [(''h'', [([1, 2], PStr ''STATE'')])]"
    by (simp_all add: example_store_def stored_state_def get_or_None_def)
  note eq = mutators_noop_and_frame[where s=example_store
      and data="PDict [(PStr ''x'', PInt 1)]" and cdata="PTuple [PList [], PDict []]"
      and user_id=1 and uv="PDict [(PStr ''a'', PInt 1)]" and udata="PDict [(PStr ''a'', PInt 1)]"
      and chat_id=7 and chv="PDict []" and chdata="PDict []"
      and name="''h''" and key="[1, 2]" and sv="PStr ''STATE''" and new_state="PStr ''STATE''"]
  note ne = mutators_noop_and_frame[where s=example_store
      and data="PDict [(PStr ''x'', PInt 2)]" and c="''{\"x\": 2}''"
      and keys="PList []" and m="[(PStr ''k'', PInt 1)]"
      and user_id=1 and udata="PDict []"
      and chat_id=8 and chdata="PDict []"
      and name="''h''" and key="[1, 2]" and new_state="PStr ''DONE''"]
  have b1: "update_bot_data example_store (PDict [(PStr ''x'', PInt 1)]) = example_store"
    using eq e1 by blast
  have b2: "update_bot_data example_store (PDict [(PStr ''x'', PInt 2)])
       = example_store\<lparr> d_bot_data := PDict [(PStr ''x'', PInt 2)], d_bot_data_json := None \<rparr>"
    using ne e2 by blast
  have b3: "update_bot_data
         ((update_bot_data example_store (PDict [(PStr ''x'', PInt 2)]))
            \<lparr> d_bot_data_json := Some ''{\"x\": 2}'' \<rparr>) (PDict [(PStr ''x'', PInt 2)])
       = (update_bot_data example_store (PDict [(PStr ''x'', PInt 2)]))
            \<lparr> d_bot_data_json := Some ''{\"x\": 2}'' \<rparr>"
    using ne by blast
  have k1: "update_callback_data example_store (PTuple [PList [], PDict []]) = Inr example_store"
    using eq e3 by blast
  have k2: "update_callback_data example_store (PTuple [PList [], PDict [(PStr ''k'', PInt 1)]])
       = Inr (example_store\<lparr> d_callback_data := PTuple [PList [], PDict [(PStr ''k'', PInt 1)]],
                              d_callback_data_json := None \<rparr>)"
    using ne e4 by blast
  have v1: "update_user_data example_store 1 (PDict [(PStr ''a'', PInt 1)]) = example_store"
    using eq u1 u2 by blast
  have v2: "update_user_data example_store 1 (PDict [])
       = example_store\<lparr> d_user_data := Some [(1, PDict [])], d_user_data_json := None \<rparr>"
    using ne u3 by (simp add: u4)
  have h1: "update_chat_data example_store 7 (PDict []) = example_store"
    using eq c1 c2 by blast
  have h2: "update_chat_data example_store 8 (PDict [])
       = example_store\<lparr> d_chat_data := Some [(7, PDict []), (8, PDict [])],
                         d_chat_data_json := None \<rparr>"
    using ne c3 by (simp add: c4)
  have t1: "update_conversation example_store ''h'' [1, 2] (PStr ''STATE'') = example_store"
    using eq s1 s2 by blast
  have t2: "update_conversation example_store ''h'' [1, 2] (PStr ''DONE'')
       = example_store\<lparr> d_conversations := Some [(''h'', [([1, 2], PStr ''DONE'')])],
                         d_conversations_json := None \<rparr>"
    using ne s3 by (simp add: s4)
  show ?thesis
    using e1 e2 b1 b2 b3 k1 k2 u1 v1 v2 c1 h1 h2 s1 t1 t2 by blast
qed

text \<open>
  Claim C5.  The claim wants, for every store, a call whose value equals the one currently
  stored to write nothing.  A store constructed from the conversations text \<^verbatim>\<open>{}\<close> has
  no handler and so nothing under the key \<^verbatim>\<open>(1, 2)\<close> of the handler \<^verbatim>\<open>h\<close>; the code
  reads that as \<^verbatim>\<open>None\<close>.  In \<^verbatim>\<open>update_conversation("h", (1, 2), None)\<close> the
  comparison of the stored with the new value therefore succeeds, and the store is written
  all the same: \<^verbatim>\<open>setdefault\<close> has added the handler \<^verbatim>\<open>h\<close> with an empty dict before
  the comparison is made.  The collection after the call differs from the one before,
  while the value read under the key is the same.  This is the early return of claim C2
  seen from the side of the store; the theorem on the mutators above gives what holds of
  the claim at every other call.
\<close>

theorem update_conversation_equal_value_writes_store:
  "(case DictPersistence_init py_json [] [] [] ''{}'' [] of
      Inl e \<Rightarrow> False
    | Inr s \<Rightarrow>
        d_conversations s = Some []
        \<and> stored_state s ''h'' [1, 2] = None
        \<and> py_eq (get_or_None (stored_state s ''h'' [1, 2])) PNone
        \<and> d_conversations (update_conversation s ''h'' [1, 2] PNone) = Some [(''h'', [])]
        \<and> d_conversations (update_conversation s ''h'' [1, 2] PNone) \<noteq> d_conversations s
        \<and> stored_state (update_conversation s ''h'' [1, 2] PNone) ''h'' [1, 2] = None)"
  by code_simp

lemma fresh_init:
  "DictPersistence_init J [] [] [] [] [] =
     Inr \<lparr> d_user_data = None, d_chat_data = None, d_bot_data = PNone,
           d_callback_data = PNone, d_conversations = None,
           d_user_data_json = None, d_chat_data_json = None, d_bot_data_json = None,
           d_callback_data_json = None, d_conversations_json = None \<rparr>"
  by (simp add: init_simps)

lemma py_eq_None_iff: "py_eq PNone b = (b = PNone)"
  by (cases b) simp_all

text \<open>
  Claim C6, as stated, fails for two states that \<^verbatim>\<open>json.dumps\<close> accepts.  A tuple
  \<^verbatim>\<open>(3, 4)\<close> comes back as the list \<^verbatim>\<open>[3, 4]\<close>, and the state \<^verbatim>\<open>None\<close> is never
  stored, so the new store has no entry for the key.
\<close>

theorem conversation_state_not_round_tripped:
  "(case DictPersistence_init py_json [] [] [] [] [] of Inl e \<Rightarrow> False | Inr s0 \<Rightarrow>
     (case fst (conversations_json py_json
                  (update_conversation s0 ''h'' [1, 2] (PTuple [PInt 3, PInt 4]))) of
        Inl e \<Rightarrow> False
      | Inr doc \<Rightarrow>
          doc = ''{\"h\": {\"[1, 2]\": [3, 4]}}''
          \<and> (case DictPersistence_init py_json [] [] [] doc [] of Inl e \<Rightarrow> False | Inr s2 \<Rightarrow>
               fst (get_conversations s2 ''h'') = [([1, 2], PList [PInt 3, PInt 4])]
               \<and> fst (get_conversations s2 ''h'') \<noteq> [([1, 2], PTuple [PInt 3, PInt 4])]))
     \<and> (case fst (conversations_json py_json (update_conversation s0 ''h'' [1, 2] PNone)) of
        Inl e \<Rightarrow> False
      | Inr doc \<Rightarrow>
          doc = ''{\"h\": {}}''
          \<and> (case DictPersistence_init py_json [] [] [] doc [] of Inl e \<Rightarrow> False | Inr s2 \<Rightarrow>
               fst (get_conversations s2 ''h'') = []
               \<and> fst (get_conversations s2 ''h'') \<noteq> [([1, 2], PNone)])))"
  by code_simp

text \<open>
  Claim C6, amended.  For every JSON module, handler name, integer-tuple key and state
  other than \<^verbatim>\<open>None\<close>: when the module returns the list of the key's integers from the
  key's text, and returns the encoded document unchanged from its text (so the state holds
  nothing that JSON changes, such as a tuple), then after \<^verbatim>\<open>update_conversation\<close> on a
  fresh store the property \<^verbatim>\<open>conversations_json\<close> gives that text, a store constructed
  from it exists, and its \<^verbatim>\<open>get_conversations\<close> gives exactly the key with the state.
\<close>

theorem conversation_round_trip:
  assumes "new_state \<noteq> PNone"
    and "dumps J (PTuple (map PInt key)) = Inr ks"
    and "loads J ks = Inr (PList (map PInt key))"
    and "dumps J (PDict [(PStr name, PDict [(PStr ks, new_state)])]) = Inr doc"
    and "doc \<noteq> []"
    and "loads J doc = Inr (PDict [(PStr name, PDict [(PStr ks, new_state)])])"
  shows "\<exists>s0 s2. DictPersistence_init J [] [] [] [] [] = Inr s0
           \<and> fst (conversations_json J (update_conversation s0 name key new_state)) = Inr doc
           \<and> DictPersistence_init J [] [] [] doc [] = Inr s2
           \<and> fst (get_conversations s2 name) = [(key, new_state)]"
proof -
  let ?s0 = "\<lparr> d_user_data = None, d_chat_data = None, d_bot_data = PNone,
           d_callback_data = PNone, d_conversations = None,
           d_user_data_json = None, d_chat_data_json = None, d_bot_data_json = None,
           d_callback_data_json = None, d_conversations_json = None \<rparr>"
  have upd: "update_conversation ?s0 name key new_state =
      ?s0\<lparr> d_conversations := Some [(name, [(key, new_state)])] \<rparr>"
    using assms(1) by (cases new_state) (simp_all add: update_conversation_def Let_def)
  have enc: "fst (conversations_json J (update_conversation ?s0 name key new_state)) = Inr doc"
    using assms(2,4)
    by (simp add: upd conversations_json_def encode_conversations_to_json_def)
  have ints: "ints_of (map PInt key) = Inr key"
    by (induction key) simp_all
  have dec: "decode_conversations_from_json J doc = Inr [(name, [(key, new_state)])]"
    using assms(3,6) by (simp add: decode_conversations_from_json_def ints)
  have init2: "DictPersistence_init J [] [] [] doc [] =
      Inr (?s0\<lparr> d_conversations := Some [(name, [(key, new_state)])],
                d_conversations_json := Some doc \<rparr>)"
    using assms(5) dec by (simp add: init_simps)
  show ?thesis
    using fresh_init[of J] enc init2 by (simp add: get_conversations_def)
qed

lemma h_key: "dumps py_json (PTuple (map PInt [1, 2])) = Inr ''[1, 2]''"
  by code_simp
lemma h_key_back: "loads py_json ''[1, 2]'' = Inr (PList (map PInt [1, 2]))"
  by code_simp
lemma h_doc: "dumps py_json (PDict [(PStr ''h'', PDict [(PStr ''[1, 2]'', PStr ''STATE'')])])
     = Inr ''{\"h\": {\"[1, 2]\": \"STATE\"}}''"
  by code_simp
lemma h_doc_back: "loads py_json ''{\"h\": {\"[1, 2]\": \"STATE\"}}''
     = Inr (PDict [(PStr ''h'', PDict [(PStr ''[1, 2]'', PStr ''STATE'')])])"
  by code_simp

text \<open>
  Witness for claim C6: the standard module meets the four conditions for the handler
  \<^verbatim>\<open>h\<close>, the key \<^verbatim>\<open>(1, 2)\<close> and the state \<^verbatim>\<open>STATE\<close>, and the round trip gives
  the key with its state.
\<close>

theorem conversation_round_trip_witness:
  "PStr ''STATE'' \<noteq> PNone
   \<and> dumps py_json (PTuple (map PInt [1, 2])) = Inr ''[1, 2]''
   \<and> loads py_json ''[1, 2]'' = Inr (PList (map PInt [1, 2]))
   \<and> dumps py_json (PDict [(PStr ''h'', PDict [(PStr ''[1, 2]'', PStr ''STATE'')])])
       = Inr ''{\"h\": {\"[1, 2]\": \"STATE\"}}''
   \<and> ''{\"h\": {\"[1, 2]\": \"STATE\"}}'' \<noteq> []
   \<and> loads py_json ''{\"h\": {\"[1, 2]\": \"STATE\"}}''
       = Inr (PDict [(PStr ''h'', PDict [(PStr ''[1, 2]'', PStr ''STATE'')])])
   \<and> (\<exists>s0 s2. DictPersistence_init py_json [] [] [] [] [] = Inr s0
         \<and> fst (conversations_json py_json (update_conversation s0 ''h'' [1, 2] (PStr ''STATE'')))
             = Inr ''{\"h\": {\"[1, 2]\": \"STATE\"}}''
         \<and> DictPersistence_init py_json [] [] [] ''{\"h\": {\"[1, 2]\": \"STATE\"}}'' [] = Inr s2
         \<and> fst (get_conversations s2 ''h'') = [([1, 2], PStr ''STATE'')])"
proof -
  have a1: "PStr ''STATE'' \<noteq> PNone" by simp
  have a5: "''{\"h\": {\"[1, 2]\": \"STATE\"}}'' \<noteq> []" by simp
  show ?thesis
    using a1 h_key h_key_back h_doc a5 h_doc_back
      conversation_round_trip[OF a1 h_key h_key_back h_doc a5 h_doc_back]
    by blast
qed

end
